theory Spec2Isabelle
  imports Complex_Main "HOL-Library.Multiset"
begin

section \<open>Numeric values\<close>

text \<open>
  The per-sample error values are numpy floating point scalars.  Finite values are
  idealised as real numbers (no rounding, no overflow); the three non-finite values are
  kept apart, because numpy propagates them through sums and means.
\<close>

datatype npfloat = Finite real | PosInf | NegInf | NaN

fun isfinite :: "npfloat \<Rightarrow> bool" where
  "isfinite (Finite x) = True"
| "isfinite PosInf = False"
| "isfinite NegInf = False"
| "isfinite NaN = False"

fun np_add :: "npfloat \<Rightarrow> npfloat \<Rightarrow> npfloat" where
  "np_add (Finite a) (Finite b) = Finite (a + b)"
| "np_add NaN y = NaN"
| "np_add x NaN = NaN"
| "np_add PosInf NegInf = NaN"
| "np_add NegInf PosInf = NaN"
| "np_add PosInf y = PosInf"
| "np_add x PosInf = PosInf"
| "np_add NegInf y = NegInf"
| "np_add x NegInf = NegInf"

text \<open>\<open>x * 1000\<close>: the conversion from meters to millimeters.\<close>

fun times1000 :: "npfloat \<Rightarrow> npfloat" where
  "times1000 (Finite a) = Finite (a * 1000)"
| "times1000 PosInf = PosInf"
| "times1000 NegInf = NegInf"
| "times1000 NaN = NaN"

text \<open>Division of a sum by an element count; numpy yields \<open>nan\<close> for \<open>0 / 0\<close>.\<close>

fun np_div_count :: "npfloat \<Rightarrow> nat \<Rightarrow> npfloat" where
  "np_div_count x 0 = NaN"
| "np_div_count (Finite a) (Suc n) = Finite (a / real (Suc n))"
| "np_div_count PosInf (Suc n) = PosInf"
| "np_div_count NegInf (Suc n) = NegInf"
| "np_div_count NaN (Suc n) = NaN"

definition np_sum :: "npfloat list \<Rightarrow> npfloat" where
  "np_sum xs = foldl np_add (Finite 0) xs"

text \<open>\<open>np.mean\<close> of a one-dimensional array; the mean of an empty array is \<open>nan\<close>.\<close>

definition np_mean :: "npfloat list \<Rightarrow> npfloat" where
  "np_mean xs = np_div_count (np_sum xs) (length xs)"

section \<open>Metric calculator: MPJPE\<close>

text \<open>
  A joint is a point with three coordinates; the joints of one sample are a list of
  them, and a batch tensor of shape \<open>batch \<times> J \<times> 3\<close> is a list of such lists.  In
  the source the tensors of the prediction and of the ground truth have the same shape
  (both are indexed by joint mappers of the same length); the operations below pair the
  elements of two lists up to the shorter one, and the theorems state the equality of the
  shapes as a hypothesis.
\<close>

type_synonym vec3 = "real \<times> real \<times> real"

text \<open>The tensor operations of
  \<^verbatim>\<open>torch.sqrt(((pred_keypoints_3d - gt_keypoints_3d) ** 2).sum(dim=-1)).mean(dim=-1)\<close>,
  one definition per operation.\<close>

fun vsub :: "vec3 \<Rightarrow> vec3 \<Rightarrow> vec3" where
  "vsub (a, b, c) (x, y, z) = (a - x, b - y, c - z)"

fun vpow2 :: "vec3 \<Rightarrow> vec3" where
  "vpow2 (a, b, c) = (a\<^sup>2, b\<^sup>2, c\<^sup>2)"

fun vsum :: "vec3 \<Rightarrow> real" where
  "vsum (a, b, c) = a + b + c"

definition tensor_sub :: "vec3 list list \<Rightarrow> vec3 list list \<Rightarrow> vec3 list list" where
  "tensor_sub P G = map2 (map2 vsub) P G"

definition tensor_pow2 :: "vec3 list list \<Rightarrow> vec3 list list" where
  "tensor_pow2 T = map (map vpow2) T"

definition tensor_sum_last :: "vec3 list list \<Rightarrow> real list list" where
  "tensor_sum_last T = map (map vsum) T"

definition tensor_sqrt :: "real list list \<Rightarrow> real list list" where
  "tensor_sqrt T = map (map sqrt) T"

text \<open>\<open>.mean(dim=-1)\<close>: the mean of each row; torch yields \<open>nan\<close> for an empty row.\<close>

definition row_mean :: "real list \<Rightarrow> npfloat" where
  "row_mean r = (if r = [] then NaN else Finite (sum_list r / real (length r)))"

definition tensor_mean_last :: "real list list \<Rightarrow> npfloat list" where
  "tensor_mean_last T = map row_mean T"

text \<open>The absolute error (MPJPE) of a batch, one value per sample.\<close>

definition absolute_error :: "vec3 list list \<Rightarrow> vec3 list list \<Rightarrow> npfloat list" where
  "absolute_error pred_keypoints_3d gt_keypoints_3d =
     tensor_mean_last (tensor_sqrt (tensor_sum_last (tensor_pow2
       (tensor_sub pred_keypoints_3d gt_keypoints_3d))))"

text \<open>
  The formula as the specification words it, for one sample: the mean over the joints
  of the square root of the sum, over the three coordinates, of the squared difference.
\<close>

fun coord :: "vec3 \<Rightarrow> nat \<Rightarrow> real" where
  "coord (x, y, z) c = (if c = 0 then x else if c = 1 then y else z)"

definition mpjpe_spec :: "vec3 list \<Rightarrow> vec3 list \<Rightarrow> real" where
  "mpjpe_spec P G =
     (\<Sum>j<length P. sqrt (\<Sum>c<3. (coord (P ! j) c - coord (G ! j) c)\<^sup>2)) / real (length P)"

section \<open>Properties of the metric calculator\<close>

lemma coord_sum: "(\<Sum>c<3. (coord p c - coord g c)\<^sup>2) = vsum (vpow2 (vsub p g))"
  by (cases p; cases g) (simp add: numeral_3_eq_3)

lemma sum_list_map2_nth:
  "length xs = length ys \<Longrightarrow>
     sum_list (map2 f xs ys) = (\<Sum>j<length xs. f (xs ! j) (ys ! j))"
proof -
  assume len: "length xs = length ys"
  have "sum_list (map2 f xs ys) = (\<Sum>j = 0..<length (map2 f xs ys). map2 f xs ys ! j)"
    by (rule sum_list_sum_nth)
  also have "\<dots> = (\<Sum>j = 0..<length xs. f (xs ! j) (ys ! j))"
    using len by (intro sum.cong) auto
  finally show ?thesis by (simp add: atLeast0LessThan)
qed

lemma absolute_error_sample:
  assumes "length P = length G" and "P \<noteq> []"
  shows "row_mean (map sqrt (map vsum (map vpow2 (map2 vsub P G)))) = Finite (mpjpe_spec P G)"
proof -
  let ?d = "\<lambda>p g. sqrt (vsum (vpow2 (vsub p g)))"
  have m: "map sqrt (map vsum (map vpow2 (map2 vsub P G))) = map2 ?d P G"
    by (simp add: split_def comp_def)
  have s: "sum_list (map2 ?d P G) = (\<Sum>j<length P. ?d (P ! j) (G ! j))"
    using assms(1) by (rule sum_list_map2_nth)
  have ne: "map2 ?d P G \<noteq> []"
    using assms by (cases P; cases G) simp_all
  have len: "length (map2 ?d P G) = length P"
    using assms(1) by simp
  show ?thesis
    unfolding m row_mean_def mpjpe_spec_def coord_sum using ne s len by simp
qed

lemma absolute_error_nth:
  assumes "i < length pred" and "i < length gt"
  shows "absolute_error pred gt ! i
           = row_mean (map sqrt (map vsum (map vpow2 (map2 vsub (pred ! i) (gt ! i)))))"
  using assms
  by (simp add: absolute_error_def tensor_mean_last_def tensor_sqrt_def tensor_sum_last_def
      tensor_pow2_def tensor_sub_def)

lemma length_absolute_error:
  "length (absolute_error pred gt) = min (length pred) (length gt)"
  by (simp add: absolute_error_def tensor_mean_last_def tensor_sqrt_def tensor_sum_last_def
      tensor_pow2_def tensor_sub_def)

lemma mpjpe_spec_same: "mpjpe_spec P P = 0"
  by (simp add: mpjpe_spec_def)

text \<open>
  Claim C7.  For a batch of predicted joints and a batch of ground-truth joints of the
  same shape (with at least one joint per sample), the computed absolute error has one
  value per sample, and the value of sample \<open>i\<close> is the mean over the joints of the
  Euclidean distance between corresponding joints, as \<open>mpjpe_spec\<close> words it.  When
  the prediction equals the ground truth, every value is 0.
\<close>

theorem absolute_error_is_mpjpe:
  assumes "length pred = length gt"
    and "\<forall>i<length pred. length (pred ! i) = length (gt ! i) \<and> pred ! i \<noteq> []"
  shows "absolute_error pred gt
           = map (\<lambda>i. Finite (mpjpe_spec (pred ! i) (gt ! i))) [0..<length pred]
         \<and> (pred = gt \<longrightarrow> absolute_error pred gt = replicate (length pred) (Finite 0))"
proof -
  have main: "absolute_error pred gt
           = map (\<lambda>i. Finite (mpjpe_spec (pred ! i) (gt ! i))) [0..<length pred]"
  proof (rule nth_equalityI)
    show "length (absolute_error pred gt)
            = length (map (\<lambda>i. Finite (mpjpe_spec (pred ! i) (gt ! i))) [0..<length pred])"
      using assms(1) by (simp add: length_absolute_error)
  next
    fix i assume "i < length (absolute_error pred gt)"
    then have i: "i < length pred" "i < length gt"
      using assms(1) by (simp_all add: length_absolute_error)
    have shape: "length (pred ! i) = length (gt ! i)" "pred ! i \<noteq> []"
      using i assms(2) by simp_all
    have "absolute_error pred gt ! i = Finite (mpjpe_spec (pred ! i) (gt ! i))"
      unfolding absolute_error_nth [OF i] by (rule absolute_error_sample [OF shape])
    then show "absolute_error pred gt ! i
            = map (\<lambda>i. Finite (mpjpe_spec (pred ! i) (gt ! i))) [0..<length pred] ! i"
      using i by simp
  qed
  have same: "absolute_error pred gt = replicate (length pred) (Finite 0)" if "pred = gt"
    unfolding main using that
    by (intro nth_equalityI) (simp_all add: mpjpe_spec_same)
  show ?thesis using main same by blast
qed

theorem absolute_error_is_mpjpe_witness:
  "absolute_error [[(0,0,0),(3,0,4)]] [[(0,0,0),(0,0,0)]] = [Finite (5/2)]
   \<and> absolute_error [[(1,2,3),(3,0,4)]] [[(1,2,3),(3,0,4)]] = [Finite 0]"
  using absolute_error_is_mpjpe [of "[[(0,0,0),(3,0,4)]]" "[[(0,0,0),(0,0,0)]]"]
    absolute_error_is_mpjpe [of "[[(1,2,3),(3,0,4)]]" "[[(1,2,3),(3,0,4)]]"]
  by (simp add: mpjpe_spec_def numeral_3_eq_3 lessThan_Suc)

section \<open>Paths and sequence identifiers\<close>

text \<open>
  \<open>os.path.basename\<close> and \<open>os.path.dirname\<close> of the Python library for POSIX paths:
  with \<open>i\<close> the index after the last slash, the base name is \<open>p[i:]\<close>; the directory
  name is \<open>p[:i]\<close>, with its trailing slashes removed unless it consists of slashes only.
\<close>

definition os_path_basename :: "string \<Rightarrow> string" where
  "os_path_basename p = rev (takeWhile (\<lambda>c. c \<noteq> CHR ''/'') (rev p))"

definition os_path_dirname :: "string \<Rightarrow> string" where
  "os_path_dirname p =
     (let head = rev (dropWhile (\<lambda>c. c \<noteq> CHR ''/'') (rev p))
      in if head \<noteq> [] \<and> head \<noteq> replicate (length head) (CHR ''/'')
         then rev (dropWhile (\<lambda>c. c = CHR ''/'') (rev head))
         else head)"

section \<open>Exceptions and dictionaries\<close>

datatype exn = AssertionError | NameError | UnboundLocalError | ValueError | KeyError
  | IndexError | ZeroDivisionError | OSError

text \<open>
  A Python dictionary keeps its keys in the order of their insertion, and the report
  iterates over them in that order: a dictionary is an association list with distinct
  keys, new keys added at the end.
\<close>

type_synonym 'v pydict = "(string \<times> 'v) list"

definition dict_contains :: "string \<Rightarrow> 'v pydict \<Rightarrow> bool" where
  "dict_contains k d = (k \<in> set (map fst d))"

text \<open>\<open>d[k] = v\<close>\<close>

fun dict_setitem :: "string \<Rightarrow> 'v \<Rightarrow> 'v pydict \<Rightarrow> 'v pydict" where
  "dict_setitem k v [] = [(k, v)]"
| "dict_setitem k v ((k', v') # d) =
     (if k = k' then (k, v) # d else (k', v') # dict_setitem k v d)"

text \<open>\<open>d[k].append(x)\<close>; a missing key raises \<open>KeyError\<close>.\<close>

fun dict_append :: "string \<Rightarrow> 'a \<Rightarrow> 'a list pydict \<Rightarrow> exn + 'a list pydict" where
  "dict_append k x [] = Inl KeyError"
| "dict_append k x ((k', xs) # d) =
     (if k = k' then Inr ((k', xs @ [x]) # d)
      else (case dict_append k x d of Inl e \<Rightarrow> Inl e | Inr d' \<Rightarrow> Inr ((k', xs) # d')))"

text \<open>\<open>np.hstack\<close> of a list of one-dimensional arrays; an empty list raises
  \<open>ValueError\<close>.\<close>

definition np_hstack :: "'a list list \<Rightarrow> exn + 'a list" where
  "np_hstack xss = (if xss = [] then Inl ValueError else Inr (concat xss))"

text \<open>\<open>np.hstack(v).mean() * 1000\<close> for an array or a list \<open>v\<close> of scalars: every
  scalar becomes an array of one element, so an empty \<open>v\<close> raises \<open>ValueError\<close>.\<close>

definition mean_mm :: "npfloat list \<Rightarrow> exn + npfloat" where
  "mean_mm v =
     (case np_hstack (map (\<lambda>x. [x]) v) of
        Inl ex \<Rightarrow> Inl ex
      | Inr a \<Rightarrow> Inr (times1000 (np_mean a)))"

lemma mean_mm_nonempty: "v \<noteq> [] \<Longrightarrow> mean_mm v = Inr (times1000 (np_mean v))"
  by (simp add: mean_mm_def np_hstack_def comp_def)

section \<open>Sequence aggregator\<close>

text \<open>What the standard output receives, one constructor per \<open>print\<close> of the source;
  numbers are kept as values where the source formats them.\<close>

datatype out =
    BatchLine string npfloat npfloat npfloat npfloat
  | ProgressMPJPE npfloat
  | ProgressReconstructionError npfloat
  | BlankLine
  | MissingFile string
  | SavedTo string
  | FinalResults
  | Report string
  | TestOn3DPW npfloat npfloat
  | WritingOutputTo string

text \<open>A run that raises ends with the exception; what it has printed until then stays
  printed.  A failure is the exception together with that output.\<close>

type_synonym failure = "exn \<times> out list"

record eval_state =
  quant_mpjpe :: "npfloat list pydict"
  quant_recon_err :: "npfloat list pydict"
  stdout :: "out list"

definition init_state :: eval_state where
  "init_state = \<lparr>quant_mpjpe = [], quant_recon_err = [], stdout = []\<rparr>"

text \<open>The body of the loop over the image names of a batch: the bucket of the sequence
  is created in both dictionaries when the name is new in \<open>quant_mpjpe\<close>, then the two
  values are appended.\<close>

definition record_sample :: "string \<times> npfloat \<times> npfloat \<Rightarrow> eval_state \<Rightarrow> failure + eval_state" where
  "record_sample x s =
     (case x of (p, e, r) \<Rightarrow>
        let seqName = os_path_basename (os_path_dirname p);
            s1 = (if \<not> dict_contains seqName (quant_mpjpe s)
                  then s\<lparr>quant_mpjpe := dict_setitem seqName [] (quant_mpjpe s),
                         quant_recon_err := dict_setitem seqName [] (quant_recon_err s)\<rparr>
                  else s)
        in (case dict_append seqName e (quant_mpjpe s1) of
              Inl ex \<Rightarrow> Inl (ex, stdout s1)
            | Inr qm \<Rightarrow>
               (case dict_append seqName r (quant_recon_err s1) of
                  Inl ex \<Rightarrow> Inl (ex, stdout s1)
                | Inr qr \<Rightarrow> Inr (s1\<lparr>quant_mpjpe := qm, quant_recon_err := qr\<rparr>))))"

fun record_all :: "(string \<times> npfloat \<times> npfloat) list \<Rightarrow> eval_state \<Rightarrow> failure + eval_state" where
  "record_all [] s = Inr s"
| "record_all (x # xs) s =
     (case record_sample x s of Inl f \<Rightarrow> Inl f | Inr s' \<Rightarrow> record_all xs s')"

section \<open>The evaluation run\<close>

text \<open>
  One evaluation unit, as the data loader and the external model deliver it: the path of
  the source image, the index of the sample, and the predicted and the ground-truth
  joints after the joint regressor and the centering on the pelvis.
\<close>

record sample =
  imgname :: string
  sample_index :: int
  pred_keypoints_3d :: "vec3 list"
  gt_keypoints_3d :: "vec3 list"

text \<open>
  The collaborators outside the two source files: \<open>reconstruction_error\<close> of
  \<open>utils.pose_utils\<close> (with \<open>reduction=None\<close> it yields one value per sample),
  the formatting \<open>'{:.02f}'.format\<close>, and the file system: \<open>os.path.exists\<close>, and
  whether a file of a given path can be opened for writing.
\<close>

record env =
  reconstruction_error :: "vec3 list \<Rightarrow> vec3 list \<Rightarrow> npfloat"
  format_02f :: "npfloat \<Rightarrow> string"
  path_exists :: "string \<Rightarrow> bool"
  can_write :: "string \<Rightarrow> bool"

text \<open>The arguments of \<open>run_evaluation\<close> that the evaluation depends on;
  \<open>result_file\<close> is \<open>None\<close> or the path of the file for the predictions.  The
  samples of \<open>dataset\<close> stand in the order in which the data loader delivers them.\<close>

record args =
  dataset_name :: string
  dataset :: "sample list"
  result_file :: "string option"
  batch_size :: nat
  log_freq :: int
  bVerbose :: bool

definition eval_pose :: "string \<Rightarrow> bool" where
  "eval_pose name = (name = ''h36m-p1'' \<or> name = ''h36m-p2'' \<or> name = ''3dpw''
                      \<or> name = ''mpi-inf-3dhp'')"

text \<open>\<open>eval_masks\<close> and \<open>eval_parts\<close> are set together, in the \<open>elif\<close> branch; \<open>pose\<close>
  is the test of the first branch.\<close>

definition eval_masks :: "(string \<Rightarrow> bool) \<Rightarrow> string \<Rightarrow> bool" where
  "eval_masks pose name = (\<not> pose name \<and> name = ''lsp'')"

definition seq_of :: "string \<Rightarrow> string" where
  "seq_of p = os_path_basename (os_path_dirname p)"

text \<open>The 3D pose evaluation of one batch: errors, recording, and the line printed for
  the batch.  \<open>seqName0\<close> is the value of \<open>seqName\<close> before the recording loop.\<close>

definition eval_pose_batch :: "env \<Rightarrow> bool \<Rightarrow> string \<Rightarrow> sample list \<Rightarrow> eval_state
    \<Rightarrow> failure + eval_state" where
  "eval_pose_batch E verbose seqName0 batch s =
     (let pred = map pred_keypoints_3d batch;
          gt = map gt_keypoints_3d batch;
          error = absolute_error pred gt;
          r_error = map2 (reconstruction_error E) pred gt;
          names = take (length r_error) (map imgname batch);
          seqName = (if names = [] then seqName0
                     else os_path_basename (os_path_dirname (last names)))
      in (case record_all (zip names (zip error r_error)) s of
            Inl f \<Rightarrow> Inl f
          | Inr s1 \<Rightarrow>
             (case np_hstack (map snd (quant_mpjpe s1)) of
                Inl ex \<Rightarrow> Inl (ex, stdout s1)
              | Inr list_mpjpe \<Rightarrow>
                 (case np_hstack (map snd (quant_recon_err s1)) of
                    Inl ex \<Rightarrow> Inl (ex, stdout s1)
                  | Inr list_reconError \<Rightarrow>
                     (if verbose then
                        (case mean_mm list_mpjpe of
                           Inl ex \<Rightarrow> Inl (ex, stdout s1)
                         | Inr total_mpjpe \<Rightarrow>
                            (case mean_mm list_reconError of
                               Inl ex \<Rightarrow> Inl (ex, stdout s1)
                             | Inr total_error \<Rightarrow>
                                Inr (s1\<lparr>stdout := stdout s1 @
                                       [BatchLine seqName
                                          (times1000 (np_mean error))
                                          (times1000 (np_mean r_error))
                                          total_mpjpe total_error]\<rparr>)))
                      else Inr s1)))))"

text \<open>
  Mask and part evaluation (dataset \<open>lsp\<close>): the rendering that would bind \<open>mask\<close> and
  \<open>parts\<close> is commented out in the source, so the first iteration over the samples of
  a batch raises \<open>NameError\<close>.
\<close>

definition eval_masks_batch :: "sample list \<Rightarrow> eval_state \<Rightarrow> failure + eval_state" where
  "eval_masks_batch batch s = (if batch \<noteq> [] then Inl (NameError, stdout s) else Inr s)"

text \<open>
  The intermediate results.  The arrays \<open>mpjpe\<close> and \<open>recon_err\<close> are
  \<open>np.zeros(len(dataset))\<close> and nothing is ever stored in them; the printed number is
  1000 times the mean of their first \<open>step * batch_size\<close> entries.
\<close>

definition np_zeros :: "nat \<Rightarrow> npfloat list" where
  "np_zeros n = replicate n (Finite 0)"

definition print_intermediate :: "(string \<Rightarrow> bool) \<Rightarrow> args \<Rightarrow> nat \<Rightarrow> eval_state
    \<Rightarrow> failure + eval_state" where
  "print_intermediate pose A step s =
     (if bVerbose A then
        (if log_freq A = 0 then Inl (ZeroDivisionError, stdout s)
         else if int step mod log_freq A = log_freq A - 1 then
           (let mpjpe = np_zeros (length (dataset A));
                recon_err = np_zeros (length (dataset A));
                s1 = (if pose (dataset_name A)
                      then s\<lparr>stdout := stdout s @
                         [ProgressMPJPE (times1000 (np_mean (take (step * batch_size A) mpjpe))),
                          ProgressReconstructionError
                            (times1000 (np_mean (take (step * batch_size A) recon_err))),
                          BlankLine]\<rparr>
                      else s)
            in if eval_masks pose (dataset_name A)
               then Inl (ZeroDivisionError, stdout s1) else Inr s1)
         else Inr s)
      else Inr s)"

text \<open>
  The block \<open>if save_results:\<close> at the end of an iteration, in \<open>eval_export.py\<close>.  It
  stores the predictions of the batch in arrays allocated before the loop; the contents
  of the arrays are not modelled, the exceptions are.  The predicted joints are read from
  \<open>pred_keypoints_3d\<close>, which is bound only by the pose evaluation.  The arrays for
  the predicted and the ground-truth joints have room for 14 joints per sample, so the
  assignment of a tensor of \<open>J\<close> joints raises \<open>ValueError\<close> unless \<open>J\<close> is 14, or 1
  (numpy repeats a single joint).  The other tensors stored come from the collaborators,
  and storing them is taken to succeed.
\<close>

definition fits_joint_buffer :: "vec3 list \<Rightarrow> bool" where
  "fits_joint_buffer P = (length P = 14 \<or> length P = 1)"

definition save_results_batch :: "args \<Rightarrow> sample list \<Rightarrow> eval_state \<Rightarrow> failure + eval_state" where
  "save_results_batch A batch s =
     (if result_file A = None then Inr s
      else if \<not> eval_pose (dataset_name A) then Inl (UnboundLocalError, stdout s)
      else if \<not> list_all (\<lambda>b. fits_joint_buffer (pred_keypoints_3d b)) batch
        then Inl (ValueError, stdout s)
      else if \<not> list_all (\<lambda>b. fits_joint_buffer (gt_keypoints_3d b)) batch
        then Inl (ValueError, stdout s)
      else Inr s)"

text \<open>One iteration of the loop over the data loader, in \<open>eval_export.py\<close>.\<close>

definition eval_step :: "env \<Rightarrow> args \<Rightarrow> nat \<Rightarrow> sample list \<Rightarrow> eval_state \<Rightarrow> failure + eval_state" where
  "eval_step E A step batch s =
     (case batch of
        [] \<Rightarrow> Inl (IndexError, stdout s)
      | b0 # rest \<Rightarrow>
         (case (if eval_pose (dataset_name A)
                then eval_pose_batch E (bVerbose A) (seq_of (imgname b0)) batch s
                else Inr s) of
            Inl f \<Rightarrow> Inl f
          | Inr s1 \<Rightarrow>
             (case (if eval_masks eval_pose (dataset_name A)
                    then eval_masks_batch batch s1 else Inr s1) of
                Inl f \<Rightarrow> Inl f
              | Inr s2 \<Rightarrow>
                 (case print_intermediate eval_pose A step s2 of
                    Inl f \<Rightarrow> Inl f
                  | Inr s3 \<Rightarrow> save_results_batch A batch s3))))"

fun eval_loop :: "(nat \<Rightarrow> sample list \<Rightarrow> eval_state \<Rightarrow> failure + eval_state) \<Rightarrow> nat
    \<Rightarrow> sample list list \<Rightarrow> eval_state \<Rightarrow> failure + eval_state" where
  "eval_loop body step [] s = Inr s"
| "eval_loop body step (batch # batches) s =
     (case body step batch s of
        Inl f \<Rightarrow> Inl f
      | Inr s' \<Rightarrow> eval_loop body (Suc step) batches s')"

text \<open>The data loader without shuffling: consecutive batches of \<open>batch_size\<close> samples,
  the last one possibly shorter; a batch size of 0 is refused.\<close>

function chunks :: "nat \<Rightarrow> 'a list \<Rightarrow> 'a list list" where
  "chunks n xs = (if n = 0 \<or> xs = [] then [] else take n xs # chunks n (drop n xs))"
  by pat_completeness auto
termination
  by (relation "measure (\<lambda>(n, xs). length xs)") auto

declare chunks.simps [simp del]

definition data_loader :: "nat \<Rightarrow> sample list \<Rightarrow> failure + sample list list" where
  "data_loader n ds = (if n = 0 then Inl (ValueError, []) else Inr (chunks n ds))"

section \<open>Report formatter\<close>

text \<open>The loop \<open>for seq in d: output_str += '{:.02f}; '.format(1000 * np.hstack(d[seq]).mean())\<close>.\<close>

fun seq_means_str :: "env \<Rightarrow> npfloat list pydict \<Rightarrow> exn + string" where
  "seq_means_str E [] = Inr []"
| "seq_means_str E ((seq, v) # d) =
     (case mean_mm v of
        Inl ex \<Rightarrow> Inl ex
      | Inr m \<Rightarrow>
         (case seq_means_str E d of
            Inl ex \<Rightarrow> Inl ex
          | Inr rest \<Rightarrow> Inr (format_02f E m @ ''; '' @ rest)))"

datatype retval = MeanErrors npfloat npfloat | MinusOne

text \<open>The text of the report, \<open>output_str\<close>: three parts joined by the line feed
  character \<open>'\n'\<close>.\<close>

definition build_output_str :: "env \<Rightarrow> eval_state \<Rightarrow> exn + (npfloat \<times> npfloat \<times> string)" where
  "build_output_str E s =
     (case np_hstack (map snd (quant_mpjpe s)) of
        Inl ex \<Rightarrow> Inl ex
      | Inr list_mpjpe \<Rightarrow>
     (case np_hstack (map snd (quant_recon_err s)) of
        Inl ex \<Rightarrow> Inl ex
      | Inr list_reconError \<Rightarrow>
     (case mean_mm list_mpjpe of
        Inl ex \<Rightarrow> Inl ex
      | Inr quant_mpjpe_avg_mm \<Rightarrow>
     (case seq_means_str E (quant_mpjpe s) of
        Inl ex \<Rightarrow> Inl ex
      | Inr mpjpe_seqs \<Rightarrow>
     (case mean_mm list_reconError of
        Inl ex \<Rightarrow> Inl ex
      | Inr quant_recon_error_avg_mm \<Rightarrow>
     (case seq_means_str E (quant_recon_err s) of
        Inl ex \<Rightarrow> Inl ex
      | Inr recon_seqs \<Rightarrow>
         Inr (quant_mpjpe_avg_mm, quant_recon_error_avg_mm,
              ''SeqNames; '' @ concat (map (\<lambda>seq. seq @ '';'') (map fst (quant_mpjpe s)))
              @ [CHR 0x0A] @ '' MPJPE; ''
              @ ''Avg '' @ format_02f E quant_mpjpe_avg_mm @ '' mm; '' @ mpjpe_seqs
              @ [CHR 0x0A] @ '' Recon Error; ''
              @ ''Avg '' @ format_02f E quant_recon_error_avg_mm @ ''mm; '' @ recon_seqs)))))))"

text \<open>The end of the pose evaluation in \<open>eval_export.py\<close>: the report is built and
  printed (in verbose mode; one line with the two averages otherwise), and the two
  averages are returned.\<close>

definition final_report :: "env \<Rightarrow> bool \<Rightarrow> eval_state \<Rightarrow> failure + retval \<times> out list" where
  "final_report E verbose s =
     (case build_output_str E s of
        Inl ex \<Rightarrow> Inl (ex, stdout s)
      | Inr (quant_mpjpe_avg_mm, quant_recon_error_avg_mm, output_str) \<Rightarrow>
          Inr (MeanErrors quant_mpjpe_avg_mm quant_recon_error_avg_mm,
               stdout s @ [if verbose then Report output_str
                           else TestOn3DPW quant_mpjpe_avg_mm quant_recon_error_avg_mm]))"

text \<open>
  After the loop and the saving of the results: the heading of the final results in
  verbose mode, then the report and the return of the averages when pose evaluation is
  enabled, and the return of -1 otherwise.  With mask evaluation enabled the loop has
  processed no batch when this point is reached, so the accuracy printed in verbose mode
  is \<open>0. / 0\<close>, which raises \<open>ZeroDivisionError\<close>.  \<open>report\<close> is the end of the pose
  evaluation, which differs between the two source files.
\<close>

definition finish :: "(bool \<Rightarrow> eval_state \<Rightarrow> failure + retval \<times> out list) \<Rightarrow> (string \<Rightarrow> bool)
    \<Rightarrow> args \<Rightarrow> eval_state \<Rightarrow> failure + retval \<times> out list" where
  "finish report pose A s =
     (let s1 = (if bVerbose A then s\<lparr>stdout := stdout s @ [FinalResults, BlankLine]\<rparr> else s)
      in if pose (dataset_name A) then report (bVerbose A) s1
         else if bVerbose A \<and> eval_masks pose (dataset_name A)
           then Inl (ZeroDivisionError, stdout s1)
         else Inr (MinusOne, stdout s1))"

text \<open>Saving the results after the loop, in \<open>eval_export.py\<close>: the file is opened
  for writing, the results are written, and a line is printed.\<close>

definition save_results :: "env \<Rightarrow> args \<Rightarrow> eval_state \<Rightarrow> failure + eval_state" where
  "save_results E A s =
     (case result_file A of
        None \<Rightarrow> Inr s
      | Some f \<Rightarrow>
          if can_write E f then Inr (s\<lparr>stdout := stdout s @ [SavedTo f]\<rparr>)
          else Inl (OSError, stdout s))"

text \<open>\<open>run_evaluation\<close> of \<open>eval_export.py\<close>.\<close>

definition evaluation_loop :: "env \<Rightarrow> args \<Rightarrow> failure + eval_state" where
  "evaluation_loop E A =
     (case data_loader (batch_size A) (dataset A) of
        Inl f \<Rightarrow> Inl f
      | Inr batches \<Rightarrow> eval_loop (eval_step E A) 0 batches init_state)"

definition run_evaluation :: "env \<Rightarrow> args \<Rightarrow> failure + retval \<times> out list" where
  "run_evaluation E A =
     (case evaluation_loop E A of
        Inl f \<Rightarrow> Inl f
      | Inr s \<Rightarrow>
         (case save_results E A s of
            Inl f \<Rightarrow> Inl f
          | Inr s1 \<Rightarrow> finish (final_report E) eval_pose A s1))"

section \<open>The run from precomputed predictions\<close>

text \<open>
  \<open>run_evaluation\<close> of \<open>evalfrompkl.py\<close> reads the prediction of every sample from a
  file named after the sequence, the image and the sample index.
\<close>

definition pklDir :: string where
  "pklDir = ''/private/home/hjoo/spinOut/11-12_3dpw_test_smplify_abl_3dpwTest_from8377_noAnglePrior''"

definition digit_char :: "nat \<Rightarrow> char" where
  "digit_char d = ''0123456789'' ! d"

function str_nat :: "nat \<Rightarrow> string" where
  "str_nat n = (if n < 10 then [digit_char n] else str_nat (n div 10) @ [digit_char (n mod 10)])"
  by pat_completeness auto
termination
  by (relation "measure (\<lambda>n. n)") auto

declare str_nat.simps [simp del]

definition str_int :: "int \<Rightarrow> string" where
  "str_int i = (if i < 0 then ''-'' @ str_nat (nat (- i)) else str_nat (nat i))"

definition os_path_join :: "string \<Rightarrow> string \<Rightarrow> string" where
  "os_path_join a b =
     (if b \<noteq> [] \<and> hd b = CHR ''/'' then b
      else if a = [] \<or> last a = CHR ''/'' then a @ b
      else a @ ''/'' @ b)"

definition pklfilepath :: "sample \<Rightarrow> string" where
  "pklfilepath b =
     (let name = imgname b;
          seqName = os_path_basename (os_path_dirname name);
          imgNameOnly = take (length (os_path_basename name) - 4) (os_path_basename name);
          pklfilename = seqName @ ''_'' @ imgNameOnly @ ''_'' @ str_int (sample_index b) @ ''.pkl''
      in os_path_join pklDir pklfilename)"

text \<open>The loop over the samples of a batch that loads the predictions: a missing file
  sets the flag, prints a line and goes on to the next sample.\<close>

fun load_predictions :: "env \<Rightarrow> sample list \<Rightarrow> bool \<times> out list \<Rightarrow> bool \<times> out list" where
  "load_predictions E [] acc = acc"
| "load_predictions E (b # bs) (missingPkl, printed) =
     (if \<not> path_exists E (pklfilepath b)
      then load_predictions E bs (True, printed @ [MissingFile (pklfilepath b)])
      else load_predictions E bs (missingPkl, printed))"

definition eval_pose_pkl :: "string \<Rightarrow> bool" where
  "eval_pose_pkl name = (name = ''h36m-p1'' \<or> name = ''h36m-p2'' \<or> name = ''3dpw''
                          \<or> name = ''3dpw-vibe'' \<or> name = ''mpi-inf-3dhp'')"

text \<open>
  One iteration of the loop, in \<open>evalfrompkl.py\<close>: when a file was missing,
  \<open>assert False\<close> ends the run, after the lines about the missing files.  (A batch of
  the data loader is never empty; for an empty one the tensors of the predictions would
  not be bound.)  With a result file, the iteration stores tensors that come from the
  prediction files and from the joint regressor in arrays allocated before the loop;
  their shapes are those of the collaborators, and storing them is taken to succeed.
\<close>

definition eval_step_pkl :: "env \<Rightarrow> args \<Rightarrow> nat \<Rightarrow> sample list \<Rightarrow> eval_state \<Rightarrow> failure + eval_state" where
  "eval_step_pkl E A step batch s =
     (case batch of
        [] \<Rightarrow> Inl (NameError, stdout s)
      | b0 # rest \<Rightarrow>
         (case load_predictions E batch (False, stdout s) of (missingPkl, printed) \<Rightarrow>
            if missingPkl then Inl (AssertionError, printed)
            else
              (case (if eval_pose_pkl (dataset_name A)
                     then eval_pose_batch E (bVerbose A) (seq_of (imgname (last batch))) batch
                            (s\<lparr>stdout := printed\<rparr>)
                     else Inr (s\<lparr>stdout := printed\<rparr>)) of
                 Inl f \<Rightarrow> Inl f
               | Inr s1 \<Rightarrow>
                  (case (if eval_masks eval_pose_pkl (dataset_name A)
                         then eval_masks_batch batch s1 else Inr s1) of
                     Inl f \<Rightarrow> Inl f
                   | Inr s2 \<Rightarrow> print_intermediate eval_pose_pkl A step s2))))"

definition evaluation_loop_pkl :: "env \<Rightarrow> args \<Rightarrow> failure + eval_state" where
  "evaluation_loop_pkl E A =
     (case data_loader (batch_size A) (dataset A) of
        Inl f \<Rightarrow> Inl f
      | Inr batches \<Rightarrow> eval_loop (eval_step_pkl E A) 0 batches init_state)"

text \<open>Saving the results after the loop, in \<open>evalfrompkl.py\<close>: \<open>np.savez\<close> writes
  the file of the given name, with \<open>.npz\<close> appended unless the name ends with it.\<close>

definition npz_path :: "string \<Rightarrow> string" where
  "npz_path f = (if 4 \<le> length f \<and> drop (length f - 4) f = ''.npz'' then f else f @ ''.npz'')"

definition save_results_pkl :: "env \<Rightarrow> args \<Rightarrow> eval_state \<Rightarrow> failure + eval_state" where
  "save_results_pkl E A s =
     (case result_file A of
        None \<Rightarrow> Inr s
      | Some f \<Rightarrow> if can_write E (npz_path f) then Inr s else Inl (OSError, stdout s))"

text \<open>
  The end of the pose evaluation in \<open>evalfrompkl.py\<close>: after the report is printed,
  and when the directory of the benchmarks exists, the path of a text file is printed
  and the report is written to that file; then the two averages are returned.
\<close>

definition benchmarks_eval :: string where
  "benchmarks_eval = ''/private/home/hjoo/codes/fairmocap/benchmarks_eval''"

definition targetFile :: string where
  "targetFile =
     os_path_join benchmarks_eval (''evalFromPkl_'' @ os_path_basename pklDir @ ''.txt'')"

definition final_report_pkl :: "env \<Rightarrow> bool \<Rightarrow> eval_state \<Rightarrow> failure + retval \<times> out list" where
  "final_report_pkl E verbose s =
     (case final_report E verbose s of
        Inl f \<Rightarrow> Inl f
      | Inr (rv, printed) \<Rightarrow>
          if path_exists E benchmarks_eval
          then (if can_write E targetFile
                then Inr (rv, printed @ [WritingOutputTo targetFile])
                else Inl (OSError, printed @ [WritingOutputTo targetFile]))
          else Inr (rv, printed))"

definition run_evaluation_pkl :: "env \<Rightarrow> args \<Rightarrow> failure + retval \<times> out list" where
  "run_evaluation_pkl E A =
     (case evaluation_loop_pkl E A of
        Inl f \<Rightarrow> Inl f
      | Inr s \<Rightarrow>
         (case save_results_pkl E A s of
            Inl f \<Rightarrow> Inl f
          | Inr s1 \<Rightarrow> finish (final_report_pkl E) eval_pose_pkl A s1))"

section \<open>The buckets in closed form\<close>

text \<open>The distinct elements of a list, in the order of their first appearance.\<close>

definition first_appearance :: "'a list \<Rightarrow> 'a list" where
  "first_appearance ks = rev (remdups (rev ks))"

lemma first_appearance_Nil [simp]: "first_appearance [] = []"
  by (simp add: first_appearance_def)

lemma first_appearance_snoc:
  "first_appearance (ks @ [k]) =
     (if k \<in> set ks then first_appearance ks else first_appearance ks @ [k])"
  by (simp add: first_appearance_def)

lemma set_first_appearance [simp]: "set (first_appearance ks) = set ks"
  by (simp add: first_appearance_def)

lemma distinct_first_appearance [simp]: "distinct (first_appearance ks)"
  by (simp add: first_appearance_def)

lemma first_appearance_Cons:
  "first_appearance (k # ks) = k # first_appearance (removeAll k ks)"
proof (induction ks rule: rev_induct)
  case Nil
  show ?case using first_appearance_snoc [of "[]" k] by simp
next
  case (snoc x xs)
  have "first_appearance (k # xs @ [x]) = first_appearance ((k # xs) @ [x])" by simp
  also have "\<dots> = (if x \<in> set (k # xs) then first_appearance (k # xs)
                     else first_appearance (k # xs) @ [x])"
    by (rule first_appearance_snoc)
  finally show ?case using snoc
    by (auto simp: first_appearance_snoc)
qed

text \<open>
  An entry is what the recording loop sees of one sample: the image name and the two
  error values.  The contents of the two dictionaries after a list of entries has been
  recorded are described directly: the keys are the sequence identifiers in the order
  of their first appearance, and the bucket of a key holds the values of the entries of
  that sequence, in the order of recording.
\<close>

type_synonym entry = "string \<times> npfloat \<times> npfloat"

definition entry_seq :: "entry \<Rightarrow> string" where
  "entry_seq x = seq_of (fst x)"

definition bucket :: "(entry \<Rightarrow> npfloat) \<Rightarrow> entry list \<Rightarrow> string \<Rightarrow> npfloat list" where
  "bucket f xs k = map f (filter (\<lambda>x. entry_seq x = k) xs)"

definition buckets :: "(entry \<Rightarrow> npfloat) \<Rightarrow> entry list \<Rightarrow> npfloat list pydict" where
  "buckets f xs = map (\<lambda>k. (k, bucket f xs k)) (first_appearance (map entry_seq xs))"

definition state_of :: "entry list \<Rightarrow> out list \<Rightarrow> eval_state" where
  "state_of xs printed =
     \<lparr>quant_mpjpe = buckets (\<lambda>x. fst (snd x)) xs,
      quant_recon_err = buckets (\<lambda>x. snd (snd x)) xs,
      stdout = printed\<rparr>"

lemma dict_setitem_new:
  "k \<notin> set ks \<Longrightarrow> dict_setitem k v (map (\<lambda>k'. (k', g k')) ks) = map (\<lambda>k'. (k', g k')) ks @ [(k, v)]"
  by (induction ks) auto

lemma dict_append_present:
  "k \<in> set ks \<Longrightarrow> distinct ks \<Longrightarrow>
     dict_append k x (map (\<lambda>k'. (k', g k')) ks)
       = Inr (map (\<lambda>k'. (k', if k' = k then g k' @ [x] else g k')) ks)"
proof (induction ks)
  case Nil
  then show ?case by simp
next
  case (Cons a ks)
  show ?case
  proof (cases "a = k")
    case True
    then have "k \<notin> set ks" using Cons.prems by simp
    then have "map (\<lambda>k'. (k', if k' = k then g k' @ [x] else g k')) ks = map (\<lambda>k'. (k', g k')) ks"
      by (intro map_cong) auto
    then show ?thesis using True by simp
  next
    case False
    then show ?thesis using Cons by simp
  qed
qed

lemma dict_append_last:
  "k \<notin> set ks \<Longrightarrow>
     dict_append k x (map (\<lambda>k'. (k', g k')) ks @ [(k, v)])
       = Inr (map (\<lambda>k'. (k', g k')) ks @ [(k, v @ [x])])"
  by (induction ks) auto

lemma buckets_snoc_new:
  assumes "entry_seq y \<notin> set (map entry_seq xs)"
  shows "buckets f (xs @ [y]) = buckets f xs @ [(entry_seq y, [f y])]"
proof -
  have a: "bucket f (xs @ [y]) k = bucket f xs k" if "k \<in> set (map entry_seq xs)" for k
    using that assms by (auto simp: bucket_def)
  have "filter (\<lambda>x. entry_seq x = entry_seq y) xs = []"
    using assms by (auto simp: filter_empty_conv intro: rev_image_eqI)
  then have b: "bucket f (xs @ [y]) (entry_seq y) = [f y]"
    by (simp add: bucket_def)
  show ?thesis
    using assms a b by (simp add: buckets_def first_appearance_snoc)
qed

lemma buckets_snoc_old:
  assumes "entry_seq y \<in> set (map entry_seq xs)"
  shows "buckets f (xs @ [y])
           = map (\<lambda>k. (k, if k = entry_seq y then bucket f xs k @ [f y] else bucket f xs k))
               (first_appearance (map entry_seq xs))"
  using assms by (simp add: buckets_def first_appearance_snoc bucket_def)

lemma record_sample_state_of:
  "record_sample y (state_of xs printed) = Inr (state_of (xs @ [y]) printed)"
proof -
  obtain p e r where y: "y = (p, e, r)" by (cases y) auto
  define k where "k = entry_seq y"
  have k: "os_path_basename (os_path_dirname p) = k"
    by (simp add: k_def y entry_seq_def seq_of_def)
  have fy: "fst (snd y) = e" "snd (snd y) = r" by (simp_all add: y)
  show ?thesis
  proof (cases "k \<in> set (map entry_seq xs)")
    case True
    then have c: "dict_contains k (buckets f xs)" for f
      by (simp add: dict_contains_def buckets_def comp_def)
    have d: "dict_append k v (buckets f xs)
               = Inr (map (\<lambda>k'. (k', if k' = k then bucket f xs k' @ [v] else bucket f xs k'))
                 (first_appearance (map entry_seq xs)))" for f v
      unfolding buckets_def using True by (intro dict_append_present) simp_all
    have n: "buckets f (xs @ [y])
               = map (\<lambda>k'. (k', if k' = k then bucket f xs k' @ [f y] else bucket f xs k'))
                 (first_appearance (map entry_seq xs))" for f
      using True buckets_snoc_old [of y xs f] by (simp add: k_def)
    show ?thesis
      unfolding y record_sample_def
      by (simp add: k c d state_of_def n [unfolded y])
  next
    case False
    then have c: "\<not> dict_contains k (buckets f xs)" for f
      by (simp add: dict_contains_def buckets_def comp_def)
    have s: "dict_setitem k [] (buckets f xs) = buckets f xs @ [(k, [])]" for f
      unfolding buckets_def using False by (intro dict_setitem_new) simp
    have d: "dict_append k v (buckets f xs @ [(k, [])])
               = Inr (buckets f xs @ [(k, [v])])" for f v
      unfolding buckets_def using False by (intro dict_append_last [where v = "[]", simplified]) simp
    have n: "buckets f (xs @ [y]) = buckets f xs @ [(k, [f y])]" for f
      using False buckets_snoc_new [of y xs f] by (simp add: k_def)
    show ?thesis
      unfolding y record_sample_def
      by (simp add: k c s d state_of_def n [unfolded y])
  qed
qed

lemma record_all_state_of:
  "record_all ys (state_of xs printed) = Inr (state_of (xs @ ys) printed)"
proof (induction ys arbitrary: xs)
  case Nil
  then show ?case by simp
next
  case (Cons y ys)
  show ?case using Cons [of "xs @ [y]"] by (simp add: record_sample_state_of)
qed


section \<open>The loop in closed form\<close>

text \<open>The absolute error of one sample, and the entry that the loop records for a
  sample.\<close>

definition sample_error :: "vec3 list \<Rightarrow> vec3 list \<Rightarrow> npfloat" where
  "sample_error P G = row_mean (map sqrt (map vsum (map vpow2 (map2 vsub P G))))"

definition entry_of :: "env \<Rightarrow> sample \<Rightarrow> entry" where
  "entry_of E b =
     (imgname b,
      sample_error (pred_keypoints_3d b) (gt_keypoints_3d b),
      reconstruction_error E (pred_keypoints_3d b) (gt_keypoints_3d b))"

lemma absolute_error_map:
  "absolute_error (map f batch) (map g batch) = map (\<lambda>b. sample_error (f b) (g b)) batch"
  by (simp add: absolute_error_def tensor_mean_last_def tensor_sqrt_def tensor_sum_last_def
      tensor_pow2_def tensor_sub_def sample_error_def zip_map_map zip_same_conv_map comp_def)

lemma batch_entries:
  "(let pred = map pred_keypoints_3d batch; gt = map gt_keypoints_3d batch;
        error = absolute_error pred gt;
        r_error = map2 (reconstruction_error E) pred gt;
        names = take (length r_error) (map imgname batch)
    in zip names (zip error r_error)) = map (entry_of E) batch"
  by (simp add: absolute_error_map zip_map_map zip_same_conv_map comp_def entry_of_def
      Let_def)

lemma buckets_eq_Nil: "buckets f xs = [] \<longleftrightarrow> xs = []"
  by (simp add: buckets_def first_appearance_def)

lemma buckets_values_nonempty:
  assumes "xs \<noteq> []"
  shows "concat (map snd (buckets f xs)) \<noteq> []"
proof -
  obtain x where x: "x \<in> set xs" using assms by (cases xs) auto
  then have "filter (\<lambda>y. entry_seq y = entry_seq x) xs \<noteq> []"
    by (auto simp: filter_empty_conv)
  then have "bucket f xs (entry_seq x) \<noteq> []"
    by (simp add: bucket_def)
  moreover have "entry_seq x \<in> set (first_appearance (map entry_seq xs))"
    using x by simp
  ultimately show ?thesis
    by (auto simp: buckets_def)
qed

lemma eval_pose_batch_state_of:
  assumes "batch \<noteq> []"
  shows "\<exists>printed'. eval_pose_batch E verbose seqName0 batch (state_of xs printed)
           = Inr (state_of (xs @ map (entry_of E) batch) printed')"
proof -
  have z: "zip (take (length (map2 (reconstruction_error E) (map pred_keypoints_3d batch)
                 (map gt_keypoints_3d batch))) (map imgname batch))
             (zip (absolute_error (map pred_keypoints_3d batch) (map gt_keypoints_3d batch))
                  (map2 (reconstruction_error E) (map pred_keypoints_3d batch)
                     (map gt_keypoints_3d batch)))
           = map (entry_of E) batch"
    using batch_entries [of batch E] by (simp add: Let_def)
  have ne: "buckets f (xs @ map (entry_of E) batch) \<noteq> []" for f
    using assms by (simp add: buckets_eq_Nil)
  have m: "mean_mm (concat (map snd (buckets f (xs @ map (entry_of E) batch))))
      = Inr (times1000 (np_mean (concat (map snd (buckets f (xs @ map (entry_of E) batch))))))"
    for f
    using assms by (intro mean_mm_nonempty buckets_values_nonempty) simp
  show ?thesis
    unfolding eval_pose_batch_def Let_def z record_all_state_of
    using ne by (simp add: np_hstack_def state_of_def m)
qed

lemma print_intermediate_state_of:
  assumes "pose (dataset_name A)" and "\<not> bVerbose A \<or> log_freq A \<noteq> 0"
  shows "\<exists>printed'. print_intermediate pose A step (state_of xs printed)
           = Inr (state_of xs printed')"
  using assms by (auto simp: print_intermediate_def Let_def eval_masks_def state_of_def)

text \<open>When the predictions of a run can be stored: no result file is given, or the
  joints of every sample fit the arrays for the joints.\<close>

definition joints_fit :: "sample \<Rightarrow> bool" where
  "joints_fit b = (fits_joint_buffer (pred_keypoints_3d b)
                    \<and> fits_joint_buffer (gt_keypoints_3d b))"

definition stores_joints :: "args \<Rightarrow> bool" where
  "stores_joints A = (result_file A = None \<or> list_all joints_fit (dataset A))"

lemma save_results_batch_ok:
  assumes "eval_pose (dataset_name A)"
    and "result_file A = None \<or> list_all joints_fit batch"
  shows "save_results_batch A batch s = Inr s"
  using assms by (auto simp: save_results_batch_def joints_fit_def list_all_iff)

lemma eval_step_state_of:
  assumes "batch \<noteq> []" and "eval_pose (dataset_name A)"
    and "\<not> bVerbose A \<or> log_freq A \<noteq> 0"
    and "result_file A = None \<or> list_all joints_fit batch"
  shows "\<exists>printed'. eval_step E A step batch (state_of xs printed)
           = Inr (state_of (xs @ map (entry_of E) batch) printed')"
proof -
  obtain b0 rest where b: "batch = b0 # rest" using assms(1) by (cases batch) auto
  obtain p1 where p1: "eval_pose_batch E (bVerbose A) (seq_of (imgname b0)) batch
      (state_of xs printed) = Inr (state_of (xs @ map (entry_of E) batch) p1)"
    using eval_pose_batch_state_of [OF assms(1)] by blast
  obtain p2 where p2: "print_intermediate eval_pose A step
      (state_of (xs @ map (entry_of E) batch) p1)
       = Inr (state_of (xs @ map (entry_of E) batch) p2)"
    using print_intermediate_state_of [of eval_pose A, OF assms(2,3)] by blast
  have sv: "save_results_batch A (b0 # rest) s = Inr s" for s
    using save_results_batch_ok [OF assms(2,4)] by (simp add: b)
  show ?thesis
    using assms(2) p1 p2 unfolding eval_step_def b [symmetric]
    by (simp add: b eval_masks_def sv) blast
qed

lemma eval_loop_state_of:
  assumes "[] \<notin> set batches" and "eval_pose (dataset_name A)"
    and "\<not> bVerbose A \<or> log_freq A \<noteq> 0"
    and "result_file A = None \<or> list_all joints_fit (concat batches)"
  shows "\<exists>printed'. eval_loop (eval_step E A) step batches (state_of xs printed)
           = Inr (state_of (xs @ map (entry_of E) (concat batches)) printed')"
  using assms(1,4)
proof (induction batches arbitrary: step xs printed)
  case Nil
  then show ?case by auto
next
  case (Cons b bs)
  then have "b \<noteq> []" by auto
  moreover have "result_file A = None \<or> list_all joints_fit b"
    using Cons.prems(2) by auto
  ultimately obtain p1 where "eval_step E A step b (state_of xs printed)
           = Inr (state_of (xs @ map (entry_of E) b) p1)"
    using eval_step_state_of [OF _ assms(2,3)] by blast
  moreover obtain p2 where "eval_loop (eval_step E A) (Suc step) bs (state_of (xs @ map (entry_of E) b) p1)
       = Inr (state_of ((xs @ map (entry_of E) b) @ map (entry_of E) (concat bs)) p2)"
    using Cons.IH [of "Suc step" "xs @ map (entry_of E) b" p1] Cons.prems by auto
  ultimately show ?case by simp blast
qed

lemma concat_chunks: "0 < n \<Longrightarrow> concat (chunks n xs) = xs"
proof (induction n xs rule: chunks.induct)
  case (1 n xs)
  show ?case
  proof (cases "xs = []")
    case True
    then show ?thesis by (simp add: chunks.simps)
  next
    case False
    then have "chunks n xs = take n xs # chunks n (drop n xs)"
      using "1.prems" by (subst chunks.simps) simp
    then show ?thesis using "1.IH" "1.prems" False by simp
  qed
qed

lemma chunks_nonempty: "[] \<notin> set (chunks n xs)"
proof (induction n xs rule: chunks.induct)
  case (1 n xs)
  show ?case
  proof (cases "n = 0 \<or> xs = []")
    case True
    then show ?thesis by (subst chunks.simps) simp
  next
    case False
    then have "chunks n xs = take n xs # chunks n (drop n xs)"
      by (subst chunks.simps) simp
    then show ?thesis using "1.IH" False by auto
  qed
qed

lemma init_state_of: "init_state = state_of [] []"
  by (simp add: init_state_def state_of_def buckets_def)


section \<open>The final state and the report in closed form\<close>

text \<open>
  The same description in terms of the samples of the dataset: the error values of a
  sample, the sequence identifiers in the order of their first appearance, the samples
  of a sequence, and the text of the final report.
\<close>

definition sample_mpjpe :: "sample \<Rightarrow> npfloat" where
  "sample_mpjpe b = sample_error (pred_keypoints_3d b) (gt_keypoints_3d b)"

definition sample_recon :: "env \<Rightarrow> sample \<Rightarrow> npfloat" where
  "sample_recon E b = reconstruction_error E (pred_keypoints_3d b) (gt_keypoints_3d b)"

definition seq_ids :: "sample list \<Rightarrow> string list" where
  "seq_ids ds = first_appearance (map (\<lambda>b. os_path_basename (os_path_dirname (imgname b))) ds)"

definition seq_samples :: "sample list \<Rightarrow> string \<Rightarrow> sample list" where
  "seq_samples ds k = filter (\<lambda>b. os_path_basename (os_path_dirname (imgname b)) = k) ds"

definition seq_buckets :: "(sample \<Rightarrow> npfloat) \<Rightarrow> sample list \<Rightarrow> npfloat list pydict" where
  "seq_buckets f ds = map (\<lambda>k. (k, map f (seq_samples ds k))) (seq_ids ds)"

lemma buckets_mpjpe:
  "buckets (\<lambda>x. fst (snd x)) (map (entry_of E) ds) = seq_buckets sample_mpjpe ds"
  by (simp add: buckets_def seq_buckets_def bucket_def seq_ids_def seq_samples_def comp_def
      entry_seq_def entry_of_def seq_of_def filter_map sample_mpjpe_def)

lemma buckets_recon:
  "buckets (\<lambda>x. snd (snd x)) (map (entry_of E) ds) = seq_buckets (sample_recon E) ds"
  by (simp add: buckets_def seq_buckets_def bucket_def seq_ids_def seq_samples_def comp_def
      entry_seq_def entry_of_def seq_of_def filter_map sample_recon_def)

definition final_state :: "env \<Rightarrow> sample list \<Rightarrow> out list \<Rightarrow> eval_state" where
  "final_state E ds printed =
     \<lparr>quant_mpjpe = seq_buckets sample_mpjpe ds,
      quant_recon_err = seq_buckets (sample_recon E) ds,
      stdout = printed\<rparr>"

lemma state_of_entries: "state_of (map (entry_of E) ds) printed = final_state E ds printed"
  by (simp add: state_of_def final_state_def buckets_mpjpe buckets_recon)

lemma seq_samples_nonempty: "k \<in> set (seq_ids ds) \<Longrightarrow> seq_samples ds k \<noteq> []"
  by (auto simp: seq_ids_def seq_samples_def filter_empty_conv)

lemma seq_ids_eq_Nil: "seq_ids ds = [] \<longleftrightarrow> ds = []"
  by (simp add: seq_ids_def first_appearance_def)

lemma seq_means_str_buckets:
  "\<forall>k \<in> set ks. g k \<noteq> [] \<Longrightarrow>
     seq_means_str E (map (\<lambda>k. (k, g k)) ks)
       = Inr (concat (map (\<lambda>k. format_02f E (times1000 (np_mean (g k))) @ ''; '') ks))"
  by (induction ks) (simp_all add: mean_mm_nonempty)

definition all_values :: "(sample \<Rightarrow> npfloat) \<Rightarrow> sample list \<Rightarrow> npfloat list" where
  "all_values f ds = concat (map snd (seq_buckets f ds))"

lemma all_values_nonempty: "ds \<noteq> [] \<Longrightarrow> all_values f ds \<noteq> []"
proof -
  assume "ds \<noteq> []"
  then obtain k where k: "k \<in> set (seq_ids ds)"
    using seq_ids_eq_Nil [of ds] by (cases "seq_ids ds") auto
  then have "map f (seq_samples ds k) \<noteq> []" using seq_samples_nonempty by simp
  then show ?thesis using k by (auto simp: all_values_def seq_buckets_def)
qed

definition seq_means_text :: "env \<Rightarrow> (sample \<Rightarrow> npfloat) \<Rightarrow> sample list \<Rightarrow> string" where
  "seq_means_text E f ds =
     concat (map (\<lambda>k. format_02f E (times1000 (np_mean (map f (seq_samples ds k)))) @ ''; '')
       (seq_ids ds))"

definition names_line :: "sample list \<Rightarrow> string" where
  "names_line ds = ''SeqNames; '' @ concat (map (\<lambda>k. k @ '';'') (seq_ids ds))"

text \<open>The line of one metric: a label, the overall average with its unit, and the
  mean of every sequence in the order of \<open>seq_ids\<close>.\<close>

definition metric_line :: "env \<Rightarrow> string \<Rightarrow> string \<Rightarrow> (sample \<Rightarrow> npfloat) \<Rightarrow> sample list \<Rightarrow> string" where
  "metric_line E label unit f ds =
     label @ ''Avg '' @ format_02f E (times1000 (np_mean (all_values f ds))) @ unit
     @ seq_means_text E f ds"

definition report_text :: "env \<Rightarrow> sample list \<Rightarrow> string" where
  "report_text E ds =
     names_line ds @ [CHR 0x0A]
     @ metric_line E '' MPJPE; '' '' mm; '' sample_mpjpe ds @ [CHR 0x0A]
     @ metric_line E '' Recon Error; '' ''mm; '' (sample_recon E) ds"

lemma final_report_final_state:
  assumes "ds \<noteq> []"
  shows "final_report E verbose (final_state E ds printed)
           = Inr (MeanErrors (times1000 (np_mean (all_values sample_mpjpe ds)))
                             (times1000 (np_mean (all_values (sample_recon E) ds))),
                  printed @ [if verbose then Report (report_text E ds)
                             else TestOn3DPW (times1000 (np_mean (all_values sample_mpjpe ds)))
                                    (times1000 (np_mean (all_values (sample_recon E) ds)))])"
proof -
  have ne: "seq_buckets f ds \<noteq> []" for f
    using assms by (simp add: seq_buckets_def seq_ids_eq_Nil)
  have h: "np_hstack (map snd (seq_buckets f ds)) = Inr (all_values f ds)" for f
    using ne [of f] by (simp add: np_hstack_def all_values_def)
  have m: "mean_mm (all_values f ds) = Inr (times1000 (np_mean (all_values f ds)))" for f
    using assms by (simp add: mean_mm_nonempty all_values_nonempty)
  have t: "seq_means_str E (seq_buckets f ds) = Inr (seq_means_text E f ds)" for f
    unfolding seq_buckets_def seq_means_text_def
    by (rule seq_means_str_buckets) (simp add: seq_samples_nonempty)
  have keys: "map fst (seq_buckets f ds) = seq_ids ds" for f
    by (simp add: seq_buckets_def comp_def)
  show ?thesis
    by (simp add: final_report_def build_output_str_def final_state_def h m t keys
        report_text_def names_line_def metric_line_def)
qed


lemma evaluation_loop_final_state:
  assumes "eval_pose (dataset_name A)" and "0 < batch_size A"
    and "\<not> bVerbose A \<or> log_freq A \<noteq> 0" and "stores_joints A"
  shows "\<exists>printed. evaluation_loop E A = Inr (final_state E (dataset A) printed)"
proof -
  have "result_file A = None
      \<or> list_all joints_fit (concat (chunks (batch_size A) (dataset A)))"
    using assms(2,4) by (simp add: stores_joints_def concat_chunks)
  then obtain printed where "eval_loop (eval_step E A) 0 (chunks (batch_size A) (dataset A))
      (state_of [] []) = Inr (state_of ([] @ map (entry_of E)
         (concat (chunks (batch_size A) (dataset A)))) printed)"
    using eval_loop_state_of [OF chunks_nonempty assms(1,3)] by blast
  then show ?thesis
    using assms(2)
    by (simp add: evaluation_loop_def data_loader_def init_state_of concat_chunks
        state_of_entries) blast
qed

lemma finish_final_state:
  assumes "pose (dataset_name A)" and "dataset A \<noteq> []"
  shows "\<exists>printed'. finish (final_report E) pose A (final_state E (dataset A) printed)
           = Inr (MeanErrors (times1000 (np_mean (all_values sample_mpjpe (dataset A))))
                             (times1000 (np_mean (all_values (sample_recon E) (dataset A)))),
                  printed' @ [if bVerbose A then Report (report_text E (dataset A))
                             else TestOn3DPW
                                    (times1000 (np_mean (all_values sample_mpjpe (dataset A))))
                                    (times1000 (np_mean (all_values (sample_recon E) (dataset A))))])"
proof -
  have u: "final_state E ds p \<lparr>stdout := q\<rparr> = final_state E ds q" for ds p q
    by (simp add: final_state_def)
  have s: "stdout (final_state E ds p) = p" for ds p
    by (simp add: final_state_def)
  show ?thesis
    using assms by (simp add: finish_def u s final_report_final_state [OF assms(2)])
qed

text \<open>When the results of a run can be saved after the loop: no result file is
  given, or the file can be written.\<close>

definition writes_result :: "env \<Rightarrow> args \<Rightarrow> bool" where
  "writes_result E A = (case result_file A of None \<Rightarrow> True | Some f \<Rightarrow> can_write E f)"

lemma save_results_final_state:
  assumes "writes_result E A"
  shows "\<exists>printed'. save_results E A (final_state E ds printed)
           = Inr (final_state E ds printed')"
  using assms
  by (auto simp: save_results_def writes_result_def final_state_def split: option.splits)

lemma run_evaluation_pose:
  assumes "eval_pose (dataset_name A)" and "0 < batch_size A" and "dataset A \<noteq> []"
    and "\<not> bVerbose A \<or> log_freq A \<noteq> 0"
    and "stores_joints A" and "writes_result E A"
  shows "\<exists>printed. run_evaluation E A
           = Inr (MeanErrors (times1000 (np_mean (all_values sample_mpjpe (dataset A))))
                             (times1000 (np_mean (all_values (sample_recon E) (dataset A)))),
                  printed @ [if bVerbose A then Report (report_text E (dataset A))
                             else TestOn3DPW
                                    (times1000 (np_mean (all_values sample_mpjpe (dataset A))))
                                    (times1000 (np_mean (all_values (sample_recon E) (dataset A))))])"
proof -
  obtain p where p: "evaluation_loop E A = Inr (final_state E (dataset A) p)"
    using evaluation_loop_final_state [OF assms(1,2,4,5)] by blast
  obtain q where q: "save_results E A (final_state E (dataset A) p)
      = Inr (final_state E (dataset A) q)"
    using save_results_final_state [OF assms(6)] by blast
  show ?thesis
    unfolding run_evaluation_def p
    using finish_final_state [of eval_pose A E q, OF assms(1,3)]
    by (simp add: q)
qed


section \<open>The run from precomputed predictions in closed form\<close>

lemma load_predictions_all_exist:
  "\<forall>b \<in> set batch. path_exists E (pklfilepath b) \<Longrightarrow> load_predictions E batch acc = acc"
  by (induction batch arbitrary: acc) (auto split: prod.splits)

lemma load_predictions_flag:
  "fst (load_predictions E batch (True, printed))"
  by (induction batch arbitrary: printed) auto

lemma load_predictions_missing:
  "\<exists>b \<in> set batch. \<not> path_exists E (pklfilepath b) \<Longrightarrow>
     fst (load_predictions E batch (flag, printed))"
proof (induction batch arbitrary: flag printed)
  case Nil
  then show ?case by simp
next
  case (Cons b bs)
  show ?case
  proof (cases "path_exists E (pklfilepath b)")
    case True
    then show ?thesis using Cons by simp
  next
    case False
    then show ?thesis by (simp add: load_predictions_flag)
  qed
qed

text \<open>The lines printed for the missing files of a batch.\<close>

definition missing_lines :: "env \<Rightarrow> sample list \<Rightarrow> out list" where
  "missing_lines E batch =
     map (\<lambda>b. MissingFile (pklfilepath b))
       (filter (\<lambda>b. \<not> path_exists E (pklfilepath b)) batch)"

lemma load_predictions_eq:
  "load_predictions E batch (flag, printed)
     = (flag \<or> (\<exists>b \<in> set batch. \<not> path_exists E (pklfilepath b)),
        printed @ missing_lines E batch)"
  by (induction batch arbitrary: flag printed) (auto simp: missing_lines_def)

lemma eval_step_pkl_missing:
  assumes "\<exists>b \<in> set batch. \<not> path_exists E (pklfilepath b)"
  shows "eval_step_pkl E A step batch s
           = Inl (AssertionError, stdout s @ missing_lines E batch)"
proof -
  obtain b0 rest where b: "batch = b0 # rest" using assms by (cases batch) auto
  have l: "load_predictions E batch (False, stdout s)
             = (True, stdout s @ missing_lines E batch)"
    using assms by (simp add: load_predictions_eq)
  show ?thesis
    using l unfolding eval_step_pkl_def b [symmetric] by (simp add: b)
qed

lemma eval_step_pkl_state_of:
  assumes "batch \<noteq> []" and "eval_pose_pkl (dataset_name A)"
    and "\<not> bVerbose A \<or> log_freq A \<noteq> 0"
    and "\<forall>b \<in> set batch. path_exists E (pklfilepath b)"
  shows "\<exists>printed'. eval_step_pkl E A step batch (state_of xs printed)
           = Inr (state_of (xs @ map (entry_of E) batch) printed')"
proof -
  obtain b0 rest where b: "batch = b0 # rest" using assms(1) by (cases batch) auto
  have l: "load_predictions E batch (False, stdout (state_of xs printed)) = (False, printed)"
    using load_predictions_all_exist [OF assms(4)] by (simp add: state_of_def)
  have u: "state_of xs printed \<lparr>stdout := printed\<rparr> = state_of xs printed"
    by (simp add: state_of_def)
  obtain p1 where p1: "eval_pose_batch E (bVerbose A) (seq_of (imgname (last batch))) batch
      (state_of xs printed) = Inr (state_of (xs @ map (entry_of E) batch) p1)"
    using eval_pose_batch_state_of [OF assms(1)] by blast
  obtain p2 where p2: "print_intermediate eval_pose_pkl A step
      (state_of (xs @ map (entry_of E) batch) p1)
       = Inr (state_of (xs @ map (entry_of E) batch) p2)"
    using print_intermediate_state_of [of eval_pose_pkl A, OF assms(2,3)] by blast
  show ?thesis
    using assms(2) p1 p2 l u unfolding eval_step_pkl_def b [symmetric]
    by (simp add: b eval_masks_def) blast
qed

lemma eval_loop_pkl_state_of:
  assumes "[] \<notin> set batches" and "eval_pose_pkl (dataset_name A)"
    and "\<not> bVerbose A \<or> log_freq A \<noteq> 0"
    and "\<forall>b \<in> set (concat batches). path_exists E (pklfilepath b)"
  shows "\<exists>printed'. eval_loop (eval_step_pkl E A) step batches (state_of xs printed)
           = Inr (state_of (xs @ map (entry_of E) (concat batches)) printed')"
  using assms(1,4)
proof (induction batches arbitrary: step xs printed)
  case Nil
  then show ?case by auto
next
  case (Cons b bs)
  then have "b \<noteq> []" and "\<forall>x \<in> set b. path_exists E (pklfilepath x)" by auto
  then obtain p1 where "eval_step_pkl E A step b (state_of xs printed)
           = Inr (state_of (xs @ map (entry_of E) b) p1)"
    using eval_step_pkl_state_of [OF _ assms(2,3)] by blast
  moreover obtain p2 where "eval_loop (eval_step_pkl E A) (Suc step) bs
         (state_of (xs @ map (entry_of E) b) p1)
       = Inr (state_of ((xs @ map (entry_of E) b) @ map (entry_of E) (concat bs)) p2)"
    using Cons.IH [of "Suc step" "xs @ map (entry_of E) b" p1] Cons.prems by auto
  ultimately show ?case by simp blast
qed

text \<open>The first batch with a missing prediction file.\<close>

fun first_missing_batch :: "env \<Rightarrow> sample list list \<Rightarrow> sample list" where
  "first_missing_batch E [] = []"
| "first_missing_batch E (b # bs) =
     (if list_ex (\<lambda>x. \<not> path_exists E (pklfilepath x)) b then b
      else first_missing_batch E bs)"

lemma eval_loop_pkl_missing:
  assumes "[] \<notin> set batches" and "eval_pose_pkl (dataset_name A)"
    and "\<not> bVerbose A \<or> log_freq A \<noteq> 0"
    and "\<exists>b \<in> set (concat batches). \<not> path_exists E (pklfilepath b)"
  shows "\<exists>pre. eval_loop (eval_step_pkl E A) step batches (state_of xs printed)
           = Inl (AssertionError, pre @ missing_lines E (first_missing_batch E batches))"
  using assms(1,4)
proof (induction batches arbitrary: step xs printed)
  case Nil
  then show ?case by simp
next
  case (Cons b bs)
  show ?case
  proof (cases "\<exists>x \<in> set b. \<not> path_exists E (pklfilepath x)")
    case True
    then show ?thesis by (simp add: eval_step_pkl_missing list_ex_iff)
  next
    case False
    then have ex: "\<forall>x \<in> set b. path_exists E (pklfilepath x)" by blast
    have "b \<noteq> []" using Cons.prems by auto
    then obtain p1 where "eval_step_pkl E A step b (state_of xs printed)
           = Inr (state_of (xs @ map (entry_of E) b) p1)"
      using eval_step_pkl_state_of [OF _ assms(2,3) ex] by blast
    moreover have "\<exists>pre. eval_loop (eval_step_pkl E A) (Suc step) bs
         (state_of (xs @ map (entry_of E) b) p1)
           = Inl (AssertionError, pre @ missing_lines E (first_missing_batch E bs))"
      using Cons.IH [of "Suc step" "xs @ map (entry_of E) b" p1] Cons.prems False by auto
    ultimately show ?thesis using False by (simp add: list_ex_iff)
  qed
qed

lemma eval_loop_pkl_fails:
  assumes "\<exists>b \<in> set (concat batches). \<not> path_exists E (pklfilepath b)"
  shows "\<exists>f. eval_loop (eval_step_pkl E A) step batches s = Inl f"
  using assms
proof (induction batches arbitrary: step s)
  case Nil
  then show ?case by simp
next
  case (Cons b bs)
  show ?case
  proof (cases "eval_step_pkl E A step b s")
    case (Inl f)
    then show ?thesis by simp
  next
    case (Inr s')
    then have "\<not> (\<exists>x \<in> set b. \<not> path_exists E (pklfilepath x))"
      using eval_step_pkl_missing [of b E A step s] by auto
    then have "\<exists>x \<in> set (concat bs). \<not> path_exists E (pklfilepath x)"
      using Cons.prems by auto
    then show ?thesis using Cons.IH [of "Suc step" s'] Inr by simp
  qed
qed

lemma evaluation_loop_pkl_final_state:
  assumes "eval_pose_pkl (dataset_name A)" and "0 < batch_size A"
    and "\<not> bVerbose A \<or> log_freq A \<noteq> 0"
    and "\<forall>b \<in> set (dataset A). path_exists E (pklfilepath b)"
  shows "\<exists>printed. evaluation_loop_pkl E A = Inr (final_state E (dataset A) printed)"
proof -
  have c: "concat (chunks (batch_size A) (dataset A)) = dataset A"
    using assms(2) by (rule concat_chunks)
  obtain printed where "eval_loop (eval_step_pkl E A) 0 (chunks (batch_size A) (dataset A))
      (state_of [] []) = Inr (state_of ([] @ map (entry_of E)
         (concat (chunks (batch_size A) (dataset A)))) printed)"
    using eval_loop_pkl_state_of [OF chunks_nonempty assms(1,3)] assms(4) c by metis
  then show ?thesis
    using assms(2)
    by (simp add: evaluation_loop_pkl_def data_loader_def init_state_of c
        state_of_entries) blast
qed

lemma evaluation_loop_pkl_missing:
  assumes "eval_pose_pkl (dataset_name A)" and "0 < batch_size A"
    and "\<not> bVerbose A \<or> log_freq A \<noteq> 0"
    and "\<exists>b \<in> set (dataset A). \<not> path_exists E (pklfilepath b)"
  shows "\<exists>pre. evaluation_loop_pkl E A
           = Inl (AssertionError,
                  pre @ missing_lines E
                          (first_missing_batch E (chunks (batch_size A) (dataset A))))"
proof -
  have c: "concat (chunks (batch_size A) (dataset A)) = dataset A"
    using assms(2) by (rule concat_chunks)
  have "\<exists>pre. eval_loop (eval_step_pkl E A) 0 (chunks (batch_size A) (dataset A))
      (state_of [] []) = Inl (AssertionError,
         pre @ missing_lines E (first_missing_batch E (chunks (batch_size A) (dataset A))))"
    using eval_loop_pkl_missing [OF chunks_nonempty assms(1,3)] assms(4) c by metis
  then show ?thesis
    using assms(2) by (simp add: evaluation_loop_pkl_def data_loader_def init_state_of)
qed

lemma evaluation_loop_pkl_fails:
  assumes "\<exists>b \<in> set (dataset A). \<not> path_exists E (pklfilepath b)"
  shows "\<exists>f. evaluation_loop_pkl E A = Inl f"
proof (cases "batch_size A = 0")
  case True
  then show ?thesis by (simp add: evaluation_loop_pkl_def data_loader_def)
next
  case False
  then have "concat (chunks (batch_size A) (dataset A)) = dataset A"
    by (simp add: concat_chunks)
  then have "\<exists>f. eval_loop (eval_step_pkl E A) 0 (chunks (batch_size A) (dataset A))
      init_state = Inl f"
    using eval_loop_pkl_fails [of "chunks (batch_size A) (dataset A)" E A 0 init_state] assms
    by simp
  then show ?thesis
    using False by (simp add: evaluation_loop_pkl_def data_loader_def)
qed

text \<open>When the results of the run from precomputed predictions can be written: the
  result file, if one is given, and the text file of the report, if the directory of the
  benchmarks exists.\<close>

definition writes_result_pkl :: "env \<Rightarrow> args \<Rightarrow> bool" where
  "writes_result_pkl E A =
     (case result_file A of None \<Rightarrow> True | Some f \<Rightarrow> can_write E (npz_path f))"

definition writes_report :: "env \<Rightarrow> bool" where
  "writes_report E = (path_exists E benchmarks_eval \<longrightarrow> can_write E targetFile)"

text \<open>What the run prints after the report.\<close>

definition report_file_lines :: "env \<Rightarrow> out list" where
  "report_file_lines E =
     (if path_exists E benchmarks_eval then [WritingOutputTo targetFile] else [])"

lemma save_results_pkl_ok:
  assumes "writes_result_pkl E A"
  shows "save_results_pkl E A s = Inr s"
  using assms by (auto simp: save_results_pkl_def writes_result_pkl_def split: option.splits)

lemma finish_pkl_final_state:
  assumes "pose (dataset_name A)" and "dataset A \<noteq> []" and "writes_report E"
  shows "\<exists>printed'. finish (final_report_pkl E) pose A (final_state E (dataset A) printed)
           = Inr (MeanErrors (times1000 (np_mean (all_values sample_mpjpe (dataset A))))
                             (times1000 (np_mean (all_values (sample_recon E) (dataset A)))),
                  printed' @ [if bVerbose A then Report (report_text E (dataset A))
                             else TestOn3DPW
                                    (times1000 (np_mean (all_values sample_mpjpe (dataset A))))
                                    (times1000 (np_mean (all_values (sample_recon E) (dataset A))))]
                    @ report_file_lines E)"
proof -
  have u: "final_state E ds p \<lparr>stdout := q\<rparr> = final_state E ds q" for ds p q
    by (simp add: final_state_def)
  have s: "stdout (final_state E ds p) = p" for ds p
    by (simp add: final_state_def)
  show ?thesis
    using assms
    by (simp add: finish_def u s final_report_pkl_def final_report_final_state [OF assms(2)]
        writes_report_def report_file_lines_def)
qed

lemma run_evaluation_pkl_pose:
  assumes "eval_pose_pkl (dataset_name A)" and "0 < batch_size A" and "dataset A \<noteq> []"
    and "\<not> bVerbose A \<or> log_freq A \<noteq> 0"
    and "\<forall>b \<in> set (dataset A). path_exists E (pklfilepath b)"
    and "writes_result_pkl E A" and "writes_report E"
  shows "\<exists>printed. run_evaluation_pkl E A
           = Inr (MeanErrors (times1000 (np_mean (all_values sample_mpjpe (dataset A))))
                             (times1000 (np_mean (all_values (sample_recon E) (dataset A)))),
                  printed @ [if bVerbose A then Report (report_text E (dataset A))
                             else TestOn3DPW
                                    (times1000 (np_mean (all_values sample_mpjpe (dataset A))))
                                    (times1000 (np_mean (all_values (sample_recon E) (dataset A))))]
                    @ report_file_lines E)"
proof -
  obtain p where p: "evaluation_loop_pkl E A = Inr (final_state E (dataset A) p)"
    using evaluation_loop_pkl_final_state [OF assms(1,2,4,5)] by blast
  show ?thesis
    unfolding run_evaluation_pkl_def p
    using finish_pkl_final_state [of eval_pose_pkl A E p, OF assms(1,3,7)]
    by (simp add: save_results_pkl_ok [OF assms(6)])
qed


section \<open>Buckets as a partition of the samples\<close>

lemma mset_concat_insert:
  "distinct ks \<Longrightarrow> k0 \<in> set ks \<Longrightarrow>
     mset (concat (map (\<lambda>k. if k0 = k then x # B k else B k) ks))
       = add_mset x (mset (concat (map B ks)))"
proof (induction ks)
  case Nil
  then show ?case by simp
next
  case (Cons a ks)
  let ?F = "\<lambda>k. if k0 = k then x # B k else B k"
  show ?case
  proof (cases "k0 = a")
    case True
    then have "k0 \<notin> set ks" using Cons.prems by simp
    then have m: "map ?F ks = map B ks"
      by (induction ks) auto
    have "concat (map ?F (a # ks)) = (x # B a) @ concat (map ?F ks)"
      using True by simp
    also have "\<dots> = (x # B a) @ concat (map B ks)"
      by (simp only: m)
    finally show ?thesis by simp
  next
    case False
    then show ?thesis using Cons by simp
  qed
qed

lemma mset_buckets:
  assumes "distinct ks" and "g ` set ds \<subseteq> set ks"
  shows "mset (concat (map (\<lambda>k. map f (filter (\<lambda>b. g b = k) ds)) ks)) = mset (map f ds)"
  using assms(2)
proof (induction ds)
  case Nil
  then show ?case by simp
next
  case (Cons a ds)
  let ?B = "\<lambda>k. map f (filter (\<lambda>b. g b = k) ds)"
  have e: "(\<lambda>k. map f (filter (\<lambda>b. g b = k) (a # ds)))
         = (\<lambda>k. if g a = k then f a # ?B k else ?B k)"
    by auto
  have in_ks: "g a \<in> set ks" using Cons.prems by simp
  have "mset (concat (map (\<lambda>k. if g a = k then f a # ?B k else ?B k) ks))
          = add_mset (f a) (mset (concat (map ?B ks)))"
    by (rule mset_concat_insert [OF assms(1) in_ks])
  also have "mset (concat (map ?B ks)) = mset (map f ds)"
    using Cons by simp
  finally show ?case
    unfolding e by simp
qed

lemma mset_all_values: "mset (all_values f ds) = mset (map f ds)"
  unfolding all_values_def seq_buckets_def seq_samples_def seq_ids_def
  by (simp add: comp_def mset_buckets)

lemma length_all_values: "length (all_values f ds) = length ds"
  using arg_cong [OF mset_all_values, of size f ds] by simp

lemma foldl_np_add_Finite: "foldl np_add (Finite a) (map Finite rs) = Finite (a + sum_list rs)"
  by (induction rs arbitrary: a) (simp_all add: add.assoc)

lemma np_div_count_Finite: "0 < n \<Longrightarrow> np_div_count (Finite a) n = Finite (a / real n)"
  by (cases n) simp_all

lemma np_mean_Finite:
  "rs \<noteq> [] \<Longrightarrow> np_mean (map Finite rs) = Finite (sum_list rs / real (length rs))"
  by (simp add: np_mean_def np_sum_def foldl_np_add_Finite np_div_count_Finite)

lemma all_values_Finite:
  assumes "\<forall>b \<in> set ds. f b = Finite (m b)"
  shows "all_values f ds = map Finite (concat (map (\<lambda>k. map m (seq_samples ds k)) (seq_ids ds)))"
proof -
  have eq: "(\<lambda>k. map f (seq_samples ds k)) = (\<lambda>k. map Finite (map m (seq_samples ds k)))"
    using assms by (intro ext) (simp add: seq_samples_def)
  have "all_values f ds = concat (map (\<lambda>k. map f (seq_samples ds k)) (seq_ids ds))"
    by (simp add: all_values_def seq_buckets_def comp_def)
  also have "\<dots> = concat (map (\<lambda>k. map Finite (map m (seq_samples ds k))) (seq_ids ds))"
    by (simp only: eq)
  also have "\<dots> = map Finite (concat (map (\<lambda>k. map m (seq_samples ds k)) (seq_ids ds)))"
    by (simp add: map_concat comp_def)
  finally show ?thesis .
qed

lemma np_mean_all_values_Finite:
  assumes "\<forall>b \<in> set ds. f b = Finite (m b)" and "ds \<noteq> []"
  shows "np_mean (all_values f ds) = Finite (sum_list (map m ds) / real (length ds))"
proof -
  let ?rs = "concat (map (\<lambda>k. map m (seq_samples ds k)) (seq_ids ds))"
  have ms: "mset ?rs = mset (map m ds)"
    unfolding seq_samples_def seq_ids_def by (simp add: mset_buckets)
  have len: "length ?rs = length ds"
    using arg_cong [OF ms, of size] by simp
  have sm: "sum_list ?rs = sum_list (map m ds)"
    using arg_cong [OF ms, of sum_mset] by (simp only: sum_mset_sum_list)
  have ne: "?rs \<noteq> []" by (metis len assms(2) length_0_conv)
  show ?thesis
    unfolding all_values_Finite [OF assms(1)] np_mean_Finite [OF ne] len sm ..
qed

lemma foldl_np_add_NaN: "foldl np_add NaN xs = NaN"
  by (induction xs) simp_all

lemma np_add_NaN_right: "np_add x NaN = NaN"
  by (cases x) simp_all

lemma foldl_np_add_has_NaN: "NaN \<in> set xs \<Longrightarrow> foldl np_add a xs = NaN"
  by (induction xs arbitrary: a) (auto simp: foldl_np_add_NaN np_add_NaN_right)

lemma np_div_count_NaN: "np_div_count NaN n = NaN"
  by (cases n) simp_all

lemma np_mean_has_NaN: "NaN \<in> set xs \<Longrightarrow> np_mean xs = NaN"
  by (simp add: np_mean_def np_sum_def foldl_np_add_has_NaN np_div_count_NaN)

lemma set_all_values: "set (all_values f ds) = f ` set ds"
  using arg_cong [OF mset_all_values, of set_mset f ds] by simp

lemma map_of_seq_buckets:
  "map_of (seq_buckets f ds) k
     = (if k \<in> set (seq_ids ds) then Some (map f (seq_samples ds k)) else None)"
  by (simp add: seq_buckets_def map_of_map_restrict restrict_map_def)

lemma keys_seq_buckets: "map fst (seq_buckets f ds) = seq_ids ds"
  by (simp add: seq_buckets_def comp_def)

lemma distinct_seq_ids: "distinct (seq_ids ds)"
  by (simp add: seq_ids_def)

lemma set_seq_ids:
  "set (seq_ids ds) = (\<lambda>b. os_path_basename (os_path_dirname (imgname b))) ` set ds"
  by (simp add: seq_ids_def)


section \<open>An example run\<close>

text \<open>
  A small run used to instantiate the theorems below: three samples of 14 joints whose
  predictions are shifted by 10, 20 and 30 millimeters along the first axis, in the
  sequences \<open>seqA\<close>, \<open>seqB\<close>, \<open>seqA\<close>; a collaborator that reports a
  reconstruction error of 0 and prints the integer part of a number; a file system in
  which every path exists and every file can be written; and a result file.
\<close>

definition demo_sample :: "string \<Rightarrow> int \<Rightarrow> real \<Rightarrow> sample" where
  "demo_sample path i d =
     \<lparr>imgname = path, sample_index = i,
      pred_keypoints_3d = replicate 14 (d, 0, 0),
      gt_keypoints_3d = replicate 14 (0, 0, 0)\<rparr>"

definition demo_env :: env where
  "demo_env =
     \<lparr>reconstruction_error = (\<lambda>P G. Finite 0),
      format_02f = (\<lambda>v. case v of Finite x \<Rightarrow> str_int \<lfloor>x\<rfloor> | _ \<Rightarrow> ''nan''),
      path_exists = (\<lambda>p. True),
      can_write = (\<lambda>p. True)\<rparr>"

definition demo_dataset :: "sample list" where
  "demo_dataset =
     [demo_sample ''/data/3dpw/imageFiles/seqA/image_00000.jpg'' 0 (1/100),
      demo_sample ''/data/3dpw/imageFiles/seqB/image_00000.jpg'' 1 (2/100),
      demo_sample ''/data/3dpw/imageFiles/seqA/image_00001.jpg'' 2 (3/100)]"

definition demo_args :: args where
  "demo_args =
     \<lparr>dataset_name = ''3dpw'', dataset = demo_dataset,
      result_file = Some ''/results/3dpw_test.pkl'', batch_size = 2, log_freq = 2,
      bVerbose = True\<rparr>"

text \<open>The same run for the dataset name that only \<open>evalfrompkl.py\<close> evaluates.\<close>

definition vibe_args :: args where
  "vibe_args = demo_args\<lparr>dataset_name := ''3dpw-vibe''\<rparr>"

lemma sample_mpjpe_demo: "sample_mpjpe (demo_sample path i d) = Finite \<bar>d\<bar>"
  by (simp add: sample_mpjpe_def demo_sample_def sample_error_def row_mean_def
      zip_replicate sum_list_replicate)

lemma seq_of_demo:
  "os_path_basename (os_path_dirname ''/data/3dpw/imageFiles/seqA/image_00000.jpg'') = ''seqA''"
  "os_path_basename (os_path_dirname ''/data/3dpw/imageFiles/seqB/image_00000.jpg'') = ''seqB''"
  "os_path_basename (os_path_dirname ''/data/3dpw/imageFiles/seqA/image_00001.jpg'') = ''seqA''"
  by (simp_all add: os_path_basename_def os_path_dirname_def)

lemma imgname_demo: "imgname (demo_sample path i d) = path"
  by (simp add: demo_sample_def)

lemma seq_ids_demo: "seq_ids demo_dataset = [''seqA'', ''seqB'']"
  by (simp add: seq_ids_def demo_dataset_def imgname_demo seq_of_demo first_appearance_def)

lemma seq_samples_demo:
  "seq_samples demo_dataset ''seqA'' =
     [demo_sample ''/data/3dpw/imageFiles/seqA/image_00000.jpg'' 0 (1/100),
      demo_sample ''/data/3dpw/imageFiles/seqA/image_00001.jpg'' 2 (3/100)]"
  "seq_samples demo_dataset ''seqB'' =
     [demo_sample ''/data/3dpw/imageFiles/seqB/image_00000.jpg'' 1 (2/100)]"
  by (simp_all add: seq_samples_def demo_dataset_def imgname_demo seq_of_demo)

lemma demo_hyps:
  "eval_pose (dataset_name demo_args)" "0 < batch_size demo_args" "dataset demo_args \<noteq> []"
  "\<not> bVerbose demo_args \<or> log_freq demo_args \<noteq> 0"
  by (simp_all add: demo_args_def eval_pose_def demo_dataset_def)

lemma joints_fit_demo: "joints_fit (demo_sample path i d)"
  by (simp add: joints_fit_def fits_joint_buffer_def demo_sample_def)

lemma demo_saves:
  "stores_joints demo_args" "writes_result demo_env demo_args"
  "writes_result_pkl demo_env demo_args" "writes_report demo_env"
  by (simp_all add: stores_joints_def writes_result_def writes_result_pkl_def writes_report_def
      demo_args_def demo_dataset_def joints_fit_demo demo_env_def)

lemma vibe_hyps:
  "eval_pose_pkl (dataset_name vibe_args)" "0 < batch_size vibe_args"
  "dataset vibe_args \<noteq> []" "\<not> bVerbose vibe_args \<or> log_freq vibe_args \<noteq> 0"
  "dataset vibe_args = demo_dataset" "bVerbose vibe_args" "log_freq vibe_args \<noteq> 0"
  "writes_result_pkl demo_env vibe_args"
  "\<forall>b \<in> set (dataset vibe_args). path_exists demo_env (pklfilepath b)"
  by (simp_all add: vibe_args_def demo_args_def eval_pose_pkl_def demo_dataset_def
      writes_result_pkl_def demo_env_def)

lemma sample_recon_demo: "sample_recon demo_env b = Finite 0"
  by (simp add: sample_recon_def demo_env_def)

lemma all_values_demo:
  "all_values sample_mpjpe demo_dataset = [Finite (1/100), Finite (3/100), Finite (2/100)]"
  "all_values (sample_recon demo_env) demo_dataset = [Finite 0, Finite 0, Finite 0]"
  by (simp_all add: all_values_def seq_buckets_def seq_ids_demo seq_samples_demo
      sample_mpjpe_demo sample_recon_demo)

lemma np_mean_demo:
  "times1000 (np_mean [Finite (1/100), Finite (3/100), Finite (1/50)]) = Finite 20"
  "times1000 (np_mean [Finite (1/100), Finite (3/100)]) = Finite 20"
  "times1000 (np_mean [Finite (1/50)]) = Finite 20"
  "times1000 (np_mean [Finite 0, Finite 0, Finite 0]) = Finite 0"
  "times1000 (np_mean [Finite 0, Finite 0]) = Finite 0"
  "times1000 (np_mean [Finite 0]) = Finite 0"
  by (simp_all add: np_mean_def np_sum_def np_div_count_Finite)

lemma str_int_demo: "str_int 20 = ''20''" "str_int 0 = ''0''"
  by (simp_all add: str_int_def str_nat.simps digit_char_def)

lemma format_demo: "format_02f demo_env (Finite x) = str_int \<lfloor>x\<rfloor>"
  by (simp add: demo_env_def)

lemma report_text_demo:
  "report_text demo_env demo_dataset =
     ''SeqNames; seqA;seqB;'' @ [CHR 0x0A] @
     '' MPJPE; Avg 20 mm; 20; 20; '' @ [CHR 0x0A] @
     '' Recon Error; Avg 0mm; 0; 0; ''"
  by (simp add: report_text_def names_line_def metric_line_def seq_means_text_def
      seq_ids_demo seq_samples_demo all_values_demo sample_mpjpe_demo np_mean_demo
      sample_recon_demo format_demo str_int_demo)

lemma report_lines_demo:
  "names_line demo_dataset = ''SeqNames; seqA;seqB;''"
  "metric_line demo_env '' MPJPE; '' '' mm; '' sample_mpjpe demo_dataset
     = '' MPJPE; Avg 20 mm; 20; 20; ''"
  "metric_line demo_env '' Recon Error; '' ''mm; '' (sample_recon demo_env) demo_dataset
     = '' Recon Error; Avg 0mm; 0; 0; ''"
  by (simp_all add: names_line_def metric_line_def seq_means_text_def
      seq_ids_demo seq_samples_demo all_values_demo sample_mpjpe_demo np_mean_demo
      sample_recon_demo format_demo str_int_demo)

lemma targetFile_eq:
  "targetFile = ''/private/home/hjoo/codes/fairmocap/benchmarks_eval/evalFromPkl_11-12_3dpw_test_smplify_abl_3dpwTest_from8377_noAnglePrior.txt''"
  by (simp add: targetFile_def benchmarks_eval_def os_path_join_def pklDir_def
      os_path_basename_def)


section \<open>Properties of the sequence aggregator\<close>

text \<open>
  What it means that the state \<open>s\<close> holds one value per metric of every sample of
  \<open>ds\<close>, in the bucket of the sample's sequence: the keys of each dictionary are
  distinct; the bucket of a sequence identifier holds the values of the samples of that
  sequence, one per sample and in their order; no other key has a bucket; and the buckets
  together hold as many values as there are samples.
\<close>

definition one_value_per_sample :: "env \<Rightarrow> sample list \<Rightarrow> eval_state \<Rightarrow> bool" where
  "one_value_per_sample E ds s \<longleftrightarrow>
     distinct (map fst (quant_mpjpe s))
     \<and> distinct (map fst (quant_recon_err s))
     \<and> (\<forall>k. map_of (quant_mpjpe s) k =
           (if k \<in> set (seq_ids ds) then Some (map sample_mpjpe (seq_samples ds k)) else None))
     \<and> (\<forall>k. map_of (quant_recon_err s) k =
           (if k \<in> set (seq_ids ds) then Some (map (sample_recon E) (seq_samples ds k)) else None))
     \<and> length (concat (map snd (quant_mpjpe s))) = length ds
     \<and> length (concat (map snd (quant_recon_err s))) = length ds"

lemma one_value_per_sample_final_state: "one_value_per_sample E ds (final_state E ds p)"
proof -
  have "length (concat (map snd (seq_buckets f ds))) = length ds" for f
    using length_all_values [of f ds] by (simp add: all_values_def)
  then show ?thesis
    by (simp add: one_value_per_sample_def final_state_def keys_seq_buckets distinct_seq_ids
        map_of_seq_buckets)
qed

lemma nth_filter_position:
  assumes "i < length ds" and "P (ds ! i)"
  shows "length (filter P (take i ds)) < length (filter P ds)
         \<and> map f (filter P ds) ! length (filter P (take i ds)) = f (ds ! i)"
proof -
  have ds: "ds = take i ds @ ds ! i # drop (Suc i) ds"
    using assms(1) by (simp add: id_take_nth_drop)
  have "filter P ds = filter P (take i ds) @ ds ! i # filter P (drop (Suc i) ds)"
    using assms(2) by (subst ds) simp
  then show ?thesis
    by (simp add: nth_append)
qed

text \<open>
  Claim C4.  In a run with pose evaluation, every sample contributes exactly one value
  per metric (one MPJPE value and one reconstruction error) to exactly one bucket, the
  one keyed by the sequence identifier of the sample.  This holds for the loop of
  \<open>eval_export.py\<close> when the predictions can be stored (no result file is given, or
  the joints of every sample fit the arrays for the joints) and, when every prediction
  file exists, for the loop of \<open>evalfrompkl.py\<close>.
\<close>

theorem each_sample_in_one_bucket:
  assumes "0 < batch_size A" and "\<not> bVerbose A \<or> log_freq A \<noteq> 0"
  shows "(eval_pose (dataset_name A) \<and> stores_joints A \<longrightarrow>
            (\<exists>s. evaluation_loop E A = Inr s \<and> one_value_per_sample E (dataset A) s))
         \<and> (eval_pose_pkl (dataset_name A)
              \<and> (\<forall>b \<in> set (dataset A). path_exists E (pklfilepath b)) \<longrightarrow>
              (\<exists>s. evaluation_loop_pkl E A = Inr s \<and> one_value_per_sample E (dataset A) s))"
proof -
  have 1: "\<exists>s. evaluation_loop E A = Inr s \<and> one_value_per_sample E (dataset A) s"
    if "eval_pose (dataset_name A)" "stores_joints A"
    using evaluation_loop_final_state [OF that(1) assms that(2), of E]
      one_value_per_sample_final_state by metis
  have 2: "\<exists>s. evaluation_loop_pkl E A = Inr s \<and> one_value_per_sample E (dataset A) s"
    if "eval_pose_pkl (dataset_name A)" "\<forall>b \<in> set (dataset A). path_exists E (pklfilepath b)"
    using evaluation_loop_pkl_final_state [OF that(1) assms that(2)]
      one_value_per_sample_final_state by metis
  show ?thesis using 1 2 by blast
qed

theorem each_sample_in_one_bucket_witness:
  "(\<exists>s. evaluation_loop demo_env demo_args = Inr s
       \<and> map_of (quant_mpjpe s) ''seqA'' = Some [Finite (1/100), Finite (3/100)]
       \<and> map_of (quant_mpjpe s) ''seqB'' = Some [Finite (1/50)]
       \<and> map_of (quant_mpjpe s) ''seqC'' = None
       \<and> map_of (quant_recon_err s) ''seqA'' = Some [Finite 0, Finite 0]
       \<and> length (concat (map snd (quant_mpjpe s))) = 3)
   \<and> (\<exists>s. evaluation_loop_pkl demo_env vibe_args = Inr s
       \<and> map_of (quant_mpjpe s) ''seqA'' = Some [Finite (1/100), Finite (3/100)]
       \<and> map_of (quant_mpjpe s) ''seqB'' = Some [Finite (1/50)])"
proof -
  have d: "dataset demo_args = demo_dataset" by (simp add: demo_args_def)
  have e: "one_value_per_sample demo_env demo_dataset s \<Longrightarrow>
      map_of (quant_mpjpe s) ''seqA'' = Some [Finite (1/100), Finite (3/100)]
       \<and> map_of (quant_mpjpe s) ''seqB'' = Some [Finite (1/50)]
       \<and> map_of (quant_mpjpe s) ''seqC'' = None
       \<and> map_of (quant_recon_err s) ''seqA'' = Some [Finite 0, Finite 0]
       \<and> length (concat (map snd (quant_mpjpe s))) = 3" for s
    by (simp add: one_value_per_sample_def seq_ids_demo seq_samples_demo sample_mpjpe_demo
        sample_recon_demo) (simp add: demo_dataset_def)
  show ?thesis
    using each_sample_in_one_bucket [OF demo_hyps(2,4), of demo_env]
      each_sample_in_one_bucket [OF vibe_hyps(2,4), of demo_env]
      demo_hyps(1) demo_saves(1) vibe_hyps(1,9) e
    unfolding d vibe_hyps(5) by blast
qed

text \<open>
  Claim C8.  The errors of the sample at position \<open>i\<close> of the dataset are recorded
  under the base name of the parent directory of its image path: the buckets of that key
  hold its two values, at the position given by the number of earlier samples of the
  same sequence.  (The run is one whose predictions can be stored: no result file is
  given, or the joints of every sample fit the arrays for the joints.)
\<close>

theorem recorded_under_parent_directory_name:
  assumes "eval_pose (dataset_name A)" and "0 < batch_size A"
    and "\<not> bVerbose A \<or> log_freq A \<noteq> 0" and "i < length (dataset A)"
    and "stores_joints A"
  shows "\<exists>s v r. evaluation_loop E A = Inr s
           \<and> map_of (quant_mpjpe s) (os_path_basename (os_path_dirname (imgname (dataset A ! i))))
               = Some v
           \<and> map_of (quant_recon_err s) (os_path_basename (os_path_dirname (imgname (dataset A ! i))))
               = Some r
           \<and> length (seq_samples (take i (dataset A))
                 (os_path_basename (os_path_dirname (imgname (dataset A ! i))))) < length v
           \<and> v ! length (seq_samples (take i (dataset A))
                 (os_path_basename (os_path_dirname (imgname (dataset A ! i)))))
               = sample_mpjpe (dataset A ! i)
           \<and> r ! length (seq_samples (take i (dataset A))
                 (os_path_basename (os_path_dirname (imgname (dataset A ! i)))))
               = sample_recon E (dataset A ! i)"
proof -
  let ?k = "os_path_basename (os_path_dirname (imgname (dataset A ! i)))"
  obtain p where p: "evaluation_loop E A = Inr (final_state E (dataset A) p)"
    using evaluation_loop_final_state [OF assms(1,2,3,5)] by blast
  have k: "?k \<in> set (seq_ids (dataset A))"
    using assms(4) by (simp add: set_seq_ids)
  have pos: "length (seq_samples (take i (dataset A)) ?k) < length (seq_samples (dataset A) ?k)
      \<and> map f (seq_samples (dataset A) ?k) ! length (seq_samples (take i (dataset A)) ?k)
          = f (dataset A ! i)" for f :: "sample \<Rightarrow> npfloat"
    unfolding seq_samples_def
    by (rule nth_filter_position [OF assms(4)]) simp
  show ?thesis
    unfolding p using k pos [of sample_mpjpe] pos [of "sample_recon E"]
    by (simp add: final_state_def map_of_seq_buckets)
qed

theorem recorded_under_parent_directory_name_witness:
  "\<exists>s. evaluation_loop demo_env demo_args = Inr s
      \<and> os_path_basename (os_path_dirname ''/data/3dpw/imageFiles/seqA/image_00001.jpg'') = ''seqA''
      \<and> (\<exists>v. map_of (quant_mpjpe s) ''seqA'' = Some v \<and> v ! 1 = Finite (3/100))"
proof -
  have d: "dataset demo_args = demo_dataset" by (simp add: demo_args_def)
  have i: "2 < length (dataset demo_args)" by (simp add: d demo_dataset_def)
  have n: "dataset demo_args ! 2
      = demo_sample ''/data/3dpw/imageFiles/seqA/image_00001.jpg'' 2 (3/100)"
    by (simp add: d demo_dataset_def)
  have t: "seq_samples (take 2 (dataset demo_args)) ''seqA''
      = [demo_sample ''/data/3dpw/imageFiles/seqA/image_00000.jpg'' 0 (1/100)]"
    by (simp add: d demo_dataset_def seq_samples_def imgname_demo seq_of_demo)
  show ?thesis
    using recorded_under_parent_directory_name [OF demo_hyps(1,2,4) i demo_saves(1), of demo_env]
    unfolding n imgname_demo seq_of_demo t
    by (auto simp: sample_mpjpe_demo)
qed


section \<open>Properties of the overall mean and of the report\<close>

text \<open>
  Claim C5.  The overall mean that a run returns for each metric is the mean over the
  concatenation of all buckets of the final state, times 1000.  It is the same for any
  two batch sizes.  When the values are finite it is the sum of the values of all
  samples divided by the number of samples, whatever the sequences of the samples are:
  every sample has the same weight.  (The run is one whose results can be saved: no
  result file is given, or the joints of every sample fit the arrays for the joints and
  the file can be written.)
\<close>

theorem overall_mean_is_concatenation_mean:
  assumes "eval_pose (dataset_name A)" and "dataset A \<noteq> []" and "0 < n1" and "0 < n2"
    and "\<not> bVerbose A \<or> log_freq A \<noteq> 0"
    and "stores_joints A" and "writes_result E A"
  shows "\<exists>s a r p1 p2.
           evaluation_loop E (A\<lparr>batch_size := n1\<rparr>) = Inr s
         \<and> a = times1000 (np_mean (concat (map snd (quant_mpjpe s))))
         \<and> r = times1000 (np_mean (concat (map snd (quant_recon_err s))))
         \<and> run_evaluation E (A\<lparr>batch_size := n1\<rparr>) = Inr (MeanErrors a r, p1)
         \<and> run_evaluation E (A\<lparr>batch_size := n2\<rparr>) = Inr (MeanErrors a r, p2)
         \<and> ((\<forall>b \<in> set (dataset A). sample_mpjpe b = Finite (m b)) \<longrightarrow>
               a = Finite (sum_list (map m (dataset A)) / real (length (dataset A)) * 1000))
         \<and> ((\<forall>b \<in> set (dataset A). sample_recon E b = Finite (q b)) \<longrightarrow>
               r = Finite (sum_list (map q (dataset A)) / real (length (dataset A)) * 1000))"
proof -
  let ?A1 = "A\<lparr>batch_size := n1\<rparr>" and ?A2 = "A\<lparr>batch_size := n2\<rparr>"
  let ?a = "times1000 (np_mean (all_values sample_mpjpe (dataset A)))"
  let ?r = "times1000 (np_mean (all_values (sample_recon E) (dataset A)))"
  have sv: "stores_joints (A\<lparr>batch_size := n\<rparr>)" "writes_result E (A\<lparr>batch_size := n\<rparr>)" for n
    using assms(6,7) by (simp_all add: stores_joints_def writes_result_def)
  obtain p where p: "evaluation_loop E ?A1 = Inr (final_state E (dataset A) p)"
    using evaluation_loop_final_state [of ?A1 E] assms(1-5) sv by auto
  obtain p1 where p1: "run_evaluation E ?A1 = Inr (MeanErrors ?a ?r, p1)"
    using run_evaluation_pose [of ?A1 E] assms(1-5) sv by auto
  obtain p2 where p2: "run_evaluation E ?A2 = Inr (MeanErrors ?a ?r, p2)"
    using run_evaluation_pose [of ?A2 E] assms(1-5) sv by auto
  have fa: "?a = Finite (sum_list (map m (dataset A)) / real (length (dataset A)) * 1000)"
    if "\<forall>b \<in> set (dataset A). sample_mpjpe b = Finite (m b)"
    using np_mean_all_values_Finite [OF that assms(2)] by simp
  have fr: "?r = Finite (sum_list (map q (dataset A)) / real (length (dataset A)) * 1000)"
    if "\<forall>b \<in> set (dataset A). sample_recon E b = Finite (q b)"
    using np_mean_all_values_Finite [OF that assms(2)] by simp
  have qa: "concat (map snd (quant_mpjpe (final_state E (dataset A) p)))
      = all_values sample_mpjpe (dataset A)"
    by (simp add: final_state_def all_values_def)
  have qr: "concat (map snd (quant_recon_err (final_state E (dataset A) p)))
      = all_values (sample_recon E) (dataset A)"
    by (simp add: final_state_def all_values_def)
  show ?thesis
    using p p1 p2 fa fr qa qr by metis
qed

theorem overall_mean_is_concatenation_mean_witness:
  "\<exists>p1 p2. run_evaluation demo_env (demo_args\<lparr>batch_size := 1\<rparr>)
               = Inr (MeanErrors (Finite 20) (Finite 0), p1)
         \<and> run_evaluation demo_env (demo_args\<lparr>batch_size := 3\<rparr>)
               = Inr (MeanErrors (Finite 20) (Finite 0), p2)"
proof -
  have d: "dataset demo_args = demo_dataset" by (simp add: demo_args_def)
  have m: "\<forall>b \<in> set (dataset demo_args). sample_mpjpe b = Finite \<bar>hd (map fst (pred_keypoints_3d b))\<bar>"
    by (simp add: d demo_dataset_def sample_mpjpe_demo) (simp add: demo_sample_def)
  have q: "\<forall>b \<in> set (dataset demo_args). sample_recon demo_env b = Finite 0"
    by (simp add: sample_recon_demo)
  have v: "sum_list (map (\<lambda>b. \<bar>hd (map fst (pred_keypoints_3d b))\<bar>) (dataset demo_args))
             / real (length (dataset demo_args)) * 1000 = 20"
    by (simp add: d demo_dataset_def demo_sample_def)
  show ?thesis
    using overall_mean_is_concatenation_mean [OF demo_hyps(1,3) _ _ demo_hyps(4) demo_saves(1,2),
        of 1 3 "\<lambda>b. \<bar>hd (map fst (pred_keypoints_3d b))\<bar>" "\<lambda>b. 0"] m q v
    by auto
qed

text \<open>The lines of a text: the parts between the line feed characters.\<close>

fun split_lines :: "string \<Rightarrow> string list" where
  "split_lines [] = [[]]"
| "split_lines (c # cs) =
     (if c = CHR 0x0A then [] # split_lines cs
      else (case split_lines cs of [] \<Rightarrow> [[c]] | l # ls \<Rightarrow> (c # l) # ls))"

lemma split_lines_one: "CHR 0x0A \<notin> set a \<Longrightarrow> split_lines a = [a]"
  by (induction a) auto

lemma split_lines_append:
  "CHR 0x0A \<notin> set a \<Longrightarrow> split_lines (a @ CHR 0x0A # rest) = a # split_lines rest"
  by (induction a) auto

text \<open>
  Claim C9.  In verbose mode a run with pose evaluation prints the report
  \<open>report_text\<close>.  The report has three lines: the line of the sequence names, then
  one line per metric with the overall average in millimeters followed by the mean of
  every sequence, the sequences being listed in the order of first appearance
  (\<open>seq_ids\<close>).  (That these are lines supposes that no sequence name and no formatted
  number contains a line feed.)  In \<open>eval_export.py\<close> the report is the last thing
  printed, in a run whose results can be saved; in \<open>evalfrompkl.py\<close>, when every
  prediction file exists and the results can be written, only the line about the text
  file of the report follows it, when the directory of the benchmarks exists.
\<close>

theorem final_report_text:
  assumes "0 < batch_size A" and "dataset A \<noteq> []" and "bVerbose A" and "log_freq A \<noteq> 0"
  shows "(eval_pose (dataset_name A) \<and> stores_joints A \<and> writes_result E A \<longrightarrow>
            (\<exists>rv printed. run_evaluation E A
                = Inr (rv, printed @ [Report (report_text E (dataset A))])))
         \<and> (eval_pose_pkl (dataset_name A)
              \<and> (\<forall>b \<in> set (dataset A). path_exists E (pklfilepath b))
              \<and> writes_result_pkl E A \<and> writes_report E \<longrightarrow>
             (\<exists>rv printed. run_evaluation_pkl E A
                = Inr (rv, printed @ [Report (report_text E (dataset A))]
                             @ report_file_lines E)))
         \<and> (CHR 0x0A \<notin> set (names_line (dataset A))
              \<and> CHR 0x0A \<notin> set (metric_line E '' MPJPE; '' '' mm; '' sample_mpjpe (dataset A))
              \<and> CHR 0x0A \<notin> set (metric_line E '' Recon Error; '' ''mm; '' (sample_recon E)
                                   (dataset A)) \<longrightarrow>
             split_lines (report_text E (dataset A))
               = [names_line (dataset A),
                  metric_line E '' MPJPE; '' '' mm; '' sample_mpjpe (dataset A),
                  metric_line E '' Recon Error; '' ''mm; '' (sample_recon E) (dataset A)])"
proof -
  have v: "\<not> bVerbose A \<or> log_freq A \<noteq> 0" using assms(4) by simp
  have 1: "\<exists>rv printed. run_evaluation E A
                = Inr (rv, printed @ [Report (report_text E (dataset A))])"
    if "eval_pose (dataset_name A)" "stores_joints A" "writes_result E A"
    using run_evaluation_pose [OF that(1) assms(1,2) v that(2,3)] assms(3) by auto
  have 2: "\<exists>rv printed. run_evaluation_pkl E A
                = Inr (rv, printed @ [Report (report_text E (dataset A))]
                             @ report_file_lines E)"
    if "eval_pose_pkl (dataset_name A)" "\<forall>b \<in> set (dataset A). path_exists E (pklfilepath b)"
      "writes_result_pkl E A" "writes_report E"
    using run_evaluation_pkl_pose [OF that(1) assms(1,2) v that(2,3,4)] assms(3) by auto
  have 3: "split_lines (n @ [CHR 0x0A] @ m @ [CHR 0x0A] @ r) = [n, m, r]"
    if "CHR 0x0A \<notin> set n" "CHR 0x0A \<notin> set m" "CHR 0x0A \<notin> set r" for n m r
    using that by (simp add: split_lines_append split_lines_one)
  show ?thesis
    using 1 2 3 unfolding report_text_def by blast
qed

theorem final_report_text_witness:
  "(\<exists>rv printed. run_evaluation demo_env demo_args = Inr (rv, printed @ [Report (
     ''SeqNames; seqA;seqB;'' @ [CHR 0x0A] @
     '' MPJPE; Avg 20 mm; 20; 20; '' @ [CHR 0x0A] @
     '' Recon Error; Avg 0mm; 0; 0; '')]))
   \<and> (\<exists>rv printed. run_evaluation_pkl demo_env vibe_args = Inr (rv, printed @ [Report (
     ''SeqNames; seqA;seqB;'' @ [CHR 0x0A] @
     '' MPJPE; Avg 20 mm; 20; 20; '' @ [CHR 0x0A] @
     '' Recon Error; Avg 0mm; 0; 0; ''),
     WritingOutputTo ''/private/home/hjoo/codes/fairmocap/benchmarks_eval/evalFromPkl_11-12_3dpw_test_smplify_abl_3dpwTest_from8377_noAnglePrior.txt'']))
   \<and> split_lines (report_text demo_env demo_dataset)
       = [''SeqNames; seqA;seqB;'',
          '' MPJPE; Avg 20 mm; 20; 20; '',
          '' Recon Error; Avg 0mm; 0; 0; '']"
proof -
  have d: "dataset demo_args = demo_dataset" by (simp add: demo_args_def)
  have v: "bVerbose demo_args" "log_freq demo_args \<noteq> 0" by (simp_all add: demo_args_def)
  have n: "CHR 0x0A \<notin> set ''SeqNames; seqA;seqB;''"
    "CHR 0x0A \<notin> set '' MPJPE; Avg 20 mm; 20; 20; ''"
    "CHR 0x0A \<notin> set '' Recon Error; Avg 0mm; 0; 0; ''"
    by simp_all
  have f: "report_file_lines demo_env = [WritingOutputTo targetFile]"
    by (simp add: report_file_lines_def demo_env_def)
  have a: "\<exists>rv printed. run_evaluation demo_env demo_args
      = Inr (rv, printed @ [Report (report_text demo_env demo_dataset)])"
    using final_report_text [OF demo_hyps(2,3) v, of demo_env] demo_hyps(1) demo_saves(1,2)
    unfolding d by blast
  have b: "\<exists>rv printed. run_evaluation_pkl demo_env vibe_args
      = Inr (rv, printed @ [Report (report_text demo_env demo_dataset),
                            WritingOutputTo targetFile])"
    using final_report_text [OF vibe_hyps(2,3,6,7), of demo_env] vibe_hyps(1,8,9) demo_saves(4)
    unfolding vibe_hyps(5) f by simp
  have c: "split_lines (report_text demo_env demo_dataset)
       = [''SeqNames; seqA;seqB;'',
          '' MPJPE; Avg 20 mm; 20; 20; '',
          '' Recon Error; Avg 0mm; 0; 0; '']"
    using final_report_text [OF demo_hyps(2,3) v, of demo_env] n
    unfolding d report_lines_demo by blast
  show ?thesis
    using a b c unfolding report_text_demo targetFile_eq by blast
qed


section \<open>The return value and the failures of a run\<close>

lemma chunks_Cons:
  "0 < n \<Longrightarrow> ds \<noteq> [] \<Longrightarrow> chunks n ds = take n ds # chunks n (drop n ds)"
  by (subst chunks.simps) simp

lemma chunks_one: "chunks (Suc 0) xs = map (\<lambda>x. [x]) xs"
proof (induction xs)
  case Nil
  show ?case by (simp add: chunks.simps)
next
  case (Cons x xs)
  then show ?case by (simp add: chunks_Cons)
qed

lemma print_intermediate_no_eval:
  assumes "\<not> pose (dataset_name A)" and "dataset_name A \<noteq> ''lsp''"
    and "\<not> bVerbose A \<or> log_freq A \<noteq> 0"
  shows "print_intermediate pose A step s = Inr s"
  using assms by (auto simp: print_intermediate_def eval_masks_def Let_def)

lemma eval_loop_no_eval:
  assumes "[] \<notin> set batches" and "\<not> eval_pose (dataset_name A)" and "dataset_name A \<noteq> ''lsp''"
    and "\<not> bVerbose A \<or> log_freq A \<noteq> 0" and "result_file A = None"
  shows "eval_loop (eval_step E A) step batches s = Inr s"
  using assms(1)
proof (induction batches arbitrary: step)
  case Nil
  then show ?case by simp
next
  case (Cons b bs)
  then obtain b0 rest where b: "b = b0 # rest" by (cases b) auto
  have "eval_step E A step b s = Inr s"
    using assms(2,3,5) print_intermediate_no_eval [of eval_pose A, OF assms(2,3,4)]
    by (simp add: eval_step_def b eval_masks_def save_results_batch_def)
  then show ?case using Cons by simp
qed

lemma eval_loop_pkl_no_eval:
  assumes "[] \<notin> set batches" and "\<not> eval_pose_pkl (dataset_name A)"
    and "dataset_name A \<noteq> ''lsp''"
    and "\<not> bVerbose A \<or> log_freq A \<noteq> 0"
    and "\<forall>b \<in> set (concat batches). path_exists E (pklfilepath b)"
  shows "eval_loop (eval_step_pkl E A) step batches s = Inr s"
  using assms(1,5)
proof (induction batches arbitrary: step)
  case Nil
  then show ?case by simp
next
  case (Cons b bs)
  then obtain b0 rest where b: "b = b0 # rest" by (cases b) auto
  have l: "load_predictions E b (False, stdout s) = (False, stdout s)"
    using Cons.prems by (intro load_predictions_all_exist) simp
  have "eval_step_pkl E A step b s = Inr s"
    using assms(2,3) print_intermediate_no_eval [of eval_pose_pkl A, OF assms(2,3,4)] l
    unfolding eval_step_pkl_def b [symmetric]
    by (simp add: b eval_masks_def)
  then show ?case using Cons by simp
qed

lemma finish_no_eval:
  assumes "\<not> pose (dataset_name A)" and "dataset_name A \<noteq> ''lsp''"
  shows "\<exists>printed. finish report pose A s = Inr (MinusOne, printed)"
  using assms by (simp add: finish_def eval_masks_def Let_def)

lemma run_evaluation_no_eval:
  assumes "\<not> eval_pose (dataset_name A)" and "dataset_name A \<noteq> ''lsp''"
    and "0 < batch_size A" and "\<not> bVerbose A \<or> log_freq A \<noteq> 0"
    and "result_file A = None"
  shows "\<exists>printed. run_evaluation E A = Inr (MinusOne, printed)"
proof -
  have "evaluation_loop E A = Inr init_state"
    using assms(3) eval_loop_no_eval [OF chunks_nonempty assms(1,2,4,5)]
    by (simp add: evaluation_loop_def data_loader_def)
  then show ?thesis
    using finish_no_eval [of eval_pose A, OF assms(1,2)] assms(5)
    by (simp add: run_evaluation_def save_results_def)
qed

lemma run_evaluation_pkl_no_eval:
  assumes "\<not> eval_pose_pkl (dataset_name A)" and "dataset_name A \<noteq> ''lsp''"
    and "0 < batch_size A" and "\<not> bVerbose A \<or> log_freq A \<noteq> 0"
    and "\<forall>b \<in> set (dataset A). path_exists E (pklfilepath b)"
    and "writes_result_pkl E A"
  shows "\<exists>printed. run_evaluation_pkl E A = Inr (MinusOne, printed)"
proof -
  have c: "concat (chunks (batch_size A) (dataset A)) = dataset A"
    using assms(3) by (rule concat_chunks)
  have "eval_loop (eval_step_pkl E A) 0 (chunks (batch_size A) (dataset A)) init_state
      = Inr init_state"
    by (rule eval_loop_pkl_no_eval [OF chunks_nonempty assms(1,2,4)]) (simp add: c assms(5))
  then have "evaluation_loop_pkl E A = Inr init_state"
    using assms(3) by (simp add: evaluation_loop_pkl_def data_loader_def)
  then show ?thesis
    using finish_no_eval [of eval_pose_pkl A, OF assms(1,2)]
    by (simp add: run_evaluation_pkl_def save_results_pkl_ok [OF assms(6)])
qed

lemma run_evaluation_lsp:
  assumes "dataset_name A = ''lsp''" and "0 < batch_size A" and "dataset A \<noteq> []"
  shows "run_evaluation E A = Inl (NameError, [])"
proof -
  obtain b0 rest where b: "take (batch_size A) (dataset A) = b0 # rest"
    using assms(2,3) by (cases "take (batch_size A) (dataset A)") auto
  have "eval_step E A 0 (take (batch_size A) (dataset A)) init_state = Inl (NameError, [])"
    unfolding b using assms(1)
    by (simp add: eval_step_def eval_pose_def eval_masks_def eval_masks_batch_def
        init_state_def)
  then show ?thesis
    using assms(2,3)
    by (simp add: run_evaluation_def evaluation_loop_def data_loader_def chunks_Cons)
qed

text \<open>With a result file and a dataset name that does not enable the pose evaluation,
  the first iteration of \<open>eval_export.py\<close> reads \<open>pred_keypoints_3d\<close>, which is
  not bound.\<close>

lemma run_evaluation_unbound:
  assumes "\<not> eval_pose (dataset_name A)" and "dataset_name A \<noteq> ''lsp''"
    and "0 < batch_size A" and "dataset A \<noteq> []"
    and "\<not> bVerbose A \<or> log_freq A \<noteq> 0" and "result_file A \<noteq> None"
  shows "run_evaluation E A = Inl (UnboundLocalError, [])"
proof -
  obtain b0 rest where b: "take (batch_size A) (dataset A) = b0 # rest"
    using assms(3,4) by (cases "take (batch_size A) (dataset A)") auto
  have "eval_step E A 0 (take (batch_size A) (dataset A)) init_state
      = Inl (UnboundLocalError, [])"
    unfolding b using assms(1,2,6) print_intermediate_no_eval [of eval_pose A, OF assms(1,2,5)]
    by (simp add: eval_step_def eval_masks_def save_results_batch_def init_state_def)
  then show ?thesis
    using assms(3,4)
    by (simp add: run_evaluation_def evaluation_loop_def data_loader_def chunks_Cons)
qed


text \<open>With a result file, a sample whose joints do not fit the arrays for the joints
  ends the run of \<open>eval_export.py\<close> in its batch, after its errors are recorded.\<close>

lemma eval_step_joints_do_not_fit:
  assumes "batch \<noteq> []" and "eval_pose (dataset_name A)"
    and "\<not> bVerbose A \<or> log_freq A \<noteq> 0"
    and "result_file A \<noteq> None" and "\<not> list_all joints_fit batch"
  shows "\<exists>printed'. eval_step E A step batch (state_of xs printed)
           = Inl (ValueError, printed')"
proof -
  obtain b0 rest where b: "batch = b0 # rest" using assms(1) by (cases batch) auto
  obtain p1 where p1: "eval_pose_batch E (bVerbose A) (seq_of (imgname b0)) batch
      (state_of xs printed) = Inr (state_of (xs @ map (entry_of E) batch) p1)"
    using eval_pose_batch_state_of [OF assms(1)] by blast
  obtain p2 where p2: "print_intermediate eval_pose A step
      (state_of (xs @ map (entry_of E) batch) p1)
       = Inr (state_of (xs @ map (entry_of E) batch) p2)"
    using print_intermediate_state_of [of eval_pose A, OF assms(2,3)] by blast
  have sv: "save_results_batch A (b0 # rest) s = Inl (ValueError, stdout s)" for s
    using assms(2,4,5)
    by (auto simp: save_results_batch_def joints_fit_def list_all_iff b)
  show ?thesis
    using assms(2) p1 p2 unfolding eval_step_def b [symmetric]
    by (simp add: b eval_masks_def sv)
qed

lemma run_evaluation_joints_do_not_fit:
  assumes "eval_pose (dataset_name A)" and "0 < batch_size A" and "dataset A \<noteq> []"
    and "\<not> bVerbose A \<or> log_freq A \<noteq> 0"
    and "result_file A \<noteq> None"
    and "\<not> list_all joints_fit (take (batch_size A) (dataset A))"
  shows "\<exists>printed. run_evaluation E A = Inl (ValueError, printed)"
proof -
  have ne: "take (batch_size A) (dataset A) \<noteq> []"
    using assms(2,3) by simp
  obtain printed where "eval_step E A 0 (take (batch_size A) (dataset A)) (state_of [] [])
      = Inl (ValueError, printed)"
    using eval_step_joints_do_not_fit [OF ne assms(1,4,5,6)] by blast
  then show ?thesis
    using assms(2,3)
    by (simp add: run_evaluation_def evaluation_loop_def data_loader_def chunks_Cons
        init_state_of)
qed

text \<open>A result file that cannot be written ends the run of \<open>eval_export.py\<close> after
  the loop; in \<open>evalfrompkl.py\<close>, a text file of the report that cannot be written
  ends the run after the report is printed.\<close>

lemma run_evaluation_unwritable:
  assumes "eval_pose (dataset_name A)" and "0 < batch_size A"
    and "\<not> bVerbose A \<or> log_freq A \<noteq> 0" and "stores_joints A"
    and "result_file A = Some f" and "\<not> can_write E f"
  shows "\<exists>printed. run_evaluation E A = Inl (OSError, printed)"
proof -
  obtain p where p: "evaluation_loop E A = Inr (final_state E (dataset A) p)"
    using evaluation_loop_final_state [OF assms(1,2,3,4)] by blast
  show ?thesis
    unfolding run_evaluation_def p using assms(5,6) by (simp add: save_results_def)
qed

lemma run_evaluation_pkl_report_unwritable:
  assumes "eval_pose_pkl (dataset_name A)" and "0 < batch_size A" and "dataset A \<noteq> []"
    and "bVerbose A" and "log_freq A \<noteq> 0"
    and "\<forall>b \<in> set (dataset A). path_exists E (pklfilepath b)"
    and "writes_result_pkl E A"
    and "path_exists E benchmarks_eval" and "\<not> can_write E targetFile"
  shows "\<exists>printed. run_evaluation_pkl E A
           = Inl (OSError, printed @ [Report (report_text E (dataset A)),
                                      WritingOutputTo targetFile])"
proof -
  have v: "\<not> bVerbose A \<or> log_freq A \<noteq> 0" using assms(5) by simp
  obtain p where p: "evaluation_loop_pkl E A = Inr (final_state E (dataset A) p)"
    using evaluation_loop_pkl_final_state [OF assms(1,2) v assms(6)] by blast
  have u: "final_state E ds p \<lparr>stdout := q\<rparr> = final_state E ds q" for ds p q
    by (simp add: final_state_def)
  have s: "stdout (final_state E ds p) = p" for ds p
    by (simp add: final_state_def)
  show ?thesis
    unfolding run_evaluation_pkl_def p
    using assms(1,4,8,9)
    by (simp add: save_results_pkl_ok [OF assms(7)] finish_def u s final_report_pkl_def
        final_report_final_state [OF assms(3)])
qed


text \<open>A run for the dataset \<open>mpi-inf-3dhp\<close>, whose samples have 17 joints, with a
  result file.\<close>

definition mpi_args :: args where
  "mpi_args =
     \<lparr>dataset_name = ''mpi-inf-3dhp'',
      dataset = [\<lparr>imgname = ''/data/mpi_inf_3dhp/TS1/imageSequence/img_000001.jpg'',
                  sample_index = 0,
                  pred_keypoints_3d = replicate 17 (1/100, 0, 0),
                  gt_keypoints_3d = replicate 17 (0, 0, 0)\<rparr>],
      result_file = Some ''/results/mpi_inf_test.pkl'', batch_size = 2, log_freq = 2,
      bVerbose = True\<rparr>"

text \<open>Two more file systems for the example run: one in which only the prediction of
  the first sample exists, and one without any prediction file.\<close>

definition first_only_env :: env where
  "first_only_env =
     demo_env\<lparr>path_exists := (\<lambda>p. p = os_path_join pklDir ''seqA_image_00000_0.pkl'')\<rparr>"

definition no_files_env :: env where
  "no_files_env = demo_env\<lparr>path_exists := (\<lambda>p. False)\<rparr>"

lemma pklfilepath_demo:
  "pklfilepath (demo_sample ''/data/3dpw/imageFiles/seqA/image_00000.jpg'' 0 d)
     = os_path_join pklDir ''seqA_image_00000_0.pkl''"
  "pklfilepath (demo_sample ''/data/3dpw/imageFiles/seqB/image_00000.jpg'' 1 d)
     = os_path_join pklDir ''seqB_image_00000_1.pkl''"
  by (simp_all add: pklfilepath_def imgname_demo seq_of_demo)
     (simp_all add: demo_sample_def os_path_basename_def str_int_def str_nat.simps digit_char_def)

lemma pkl_paths_differ:
  "os_path_join pklDir ''seqB_image_00000_1.pkl'' \<noteq> os_path_join pklDir ''seqA_image_00000_0.pkl''"
  by (simp add: os_path_join_def pklDir_def)

lemma first_only_missing:
  "path_exists first_only_env (pklfilepath (demo_sample ''/data/3dpw/imageFiles/seqA/image_00000.jpg'' 0 d))"
  "\<not> path_exists first_only_env (pklfilepath (demo_sample ''/data/3dpw/imageFiles/seqB/image_00000.jpg'' 1 d))"
  by (simp_all add: first_only_env_def pklfilepath_demo pkl_paths_differ)

lemma demo_pkl_hyps:
  "eval_pose_pkl (dataset_name demo_args)"
  "eval_pose_pkl (dataset_name (demo_args\<lparr>batch_size := 1\<rparr>))"
  by (simp_all add: demo_args_def eval_pose_pkl_def)

text \<open>
  Claim C10, as amended.  With a positive batch size (and, in verbose mode, a log
  frequency other than 0): when pose evaluation is enabled and the dataset has at least
  one sample, \<open>run_evaluation\<close> returns the pair of the overall mean MPJPE and the
  overall mean reconstruction error over the concatenation of all buckets, each times
  1000 -- in \<open>eval_export.py\<close> provided that the results can be saved (no result
  file is given, or the joints of every sample fit the arrays for the joints and the
  file can be written), in \<open>evalfrompkl.py\<close> provided that every prediction file
  exists, that the result file, if one is given, can be written, and that the text file
  of the report can be written if the directory of the benchmarks exists.  When the
  dataset name enables neither pose nor mask evaluation, it returns -1 -- in
  \<open>eval_export.py\<close> provided that no result file is given, in \<open>evalfrompkl.py\<close>
  provided that every prediction file exists and that the result file, if one is given,
  can be written.
\<close>

theorem run_evaluation_return_value:
  assumes "0 < batch_size A" and "\<not> bVerbose A \<or> log_freq A \<noteq> 0"
  shows "(eval_pose (dataset_name A) \<and> dataset A \<noteq> []
            \<and> stores_joints A \<and> writes_result E A \<longrightarrow>
            (\<exists>printed. run_evaluation E A
               = Inr (MeanErrors (times1000 (np_mean (all_values sample_mpjpe (dataset A))))
                                 (times1000 (np_mean (all_values (sample_recon E) (dataset A)))),
                      printed)))
       \<and> (eval_pose_pkl (dataset_name A) \<and> dataset A \<noteq> []
            \<and> (\<forall>b \<in> set (dataset A). path_exists E (pklfilepath b))
            \<and> writes_result_pkl E A \<and> writes_report E \<longrightarrow>
            (\<exists>printed. run_evaluation_pkl E A
               = Inr (MeanErrors (times1000 (np_mean (all_values sample_mpjpe (dataset A))))
                                 (times1000 (np_mean (all_values (sample_recon E) (dataset A)))),
                      printed)))
       \<and> (\<not> eval_pose (dataset_name A) \<and> dataset_name A \<noteq> ''lsp''
            \<and> result_file A = None \<longrightarrow>
            (\<exists>printed. run_evaluation E A = Inr (MinusOne, printed)))
       \<and> (\<not> eval_pose_pkl (dataset_name A) \<and> dataset_name A \<noteq> ''lsp''
            \<and> (\<forall>b \<in> set (dataset A). path_exists E (pklfilepath b))
            \<and> writes_result_pkl E A \<longrightarrow>
            (\<exists>printed. run_evaluation_pkl E A = Inr (MinusOne, printed)))"
proof -
  have 1: "\<exists>printed. run_evaluation E A
               = Inr (MeanErrors (times1000 (np_mean (all_values sample_mpjpe (dataset A))))
                                 (times1000 (np_mean (all_values (sample_recon E) (dataset A)))),
                      printed)"
    if "eval_pose (dataset_name A)" "dataset A \<noteq> []" "stores_joints A" "writes_result E A"
    using run_evaluation_pose [OF that(1) assms(1) that(2) assms(2) that(3,4)] by blast
  have 2: "\<exists>printed. run_evaluation_pkl E A
               = Inr (MeanErrors (times1000 (np_mean (all_values sample_mpjpe (dataset A))))
                                 (times1000 (np_mean (all_values (sample_recon E) (dataset A)))),
                      printed)"
    if "eval_pose_pkl (dataset_name A)" "dataset A \<noteq> []"
      "\<forall>b \<in> set (dataset A). path_exists E (pklfilepath b)"
      "writes_result_pkl E A" "writes_report E"
    using run_evaluation_pkl_pose [OF that(1) assms(1) that(2) assms(2) that(3,4,5)] by blast
  have 3: "\<exists>printed. run_evaluation E A = Inr (MinusOne, printed)"
    if "\<not> eval_pose (dataset_name A)" "dataset_name A \<noteq> ''lsp''" "result_file A = None"
    using run_evaluation_no_eval [OF that(1,2) assms that(3)] .
  have 4: "\<exists>printed. run_evaluation_pkl E A = Inr (MinusOne, printed)"
    if "\<not> eval_pose_pkl (dataset_name A)" "dataset_name A \<noteq> ''lsp''"
      "\<forall>b \<in> set (dataset A). path_exists E (pklfilepath b)" "writes_result_pkl E A"
    using run_evaluation_pkl_no_eval [OF that(1,2) assms that(3,4)] .
  show ?thesis using 1 2 3 4 by blast
qed


theorem run_evaluation_return_value_witness:
  "(\<exists>printed. run_evaluation demo_env demo_args = Inr (MeanErrors (Finite 20) (Finite 0), printed))
   \<and> (\<exists>printed. run_evaluation_pkl demo_env vibe_args
          = Inr (MeanErrors (Finite 20) (Finite 0), printed))
   \<and> (\<exists>printed. run_evaluation demo_env (vibe_args\<lparr>result_file := None\<rparr>)
          = Inr (MinusOne, printed))
   \<and> (\<exists>printed. run_evaluation_pkl demo_env (demo_args\<lparr>dataset_name := ''coco''\<rparr>)
          = Inr (MinusOne, printed))"
proof -
  have d: "dataset demo_args = demo_dataset" by (simp add: demo_args_def)
  have a: "eval_pose (dataset_name demo_args) \<and> dataset demo_args \<noteq> []
      \<and> stores_joints demo_args \<and> writes_result demo_env demo_args"
    using demo_hyps demo_saves by simp
  have b: "eval_pose_pkl (dataset_name vibe_args) \<and> dataset vibe_args \<noteq> []
      \<and> (\<forall>b \<in> set (dataset vibe_args). path_exists demo_env (pklfilepath b))
      \<and> writes_result_pkl demo_env vibe_args \<and> writes_report demo_env"
    using vibe_hyps demo_saves(4) by simp
  let ?V = "vibe_args\<lparr>result_file := None\<rparr>" and ?C = "demo_args\<lparr>dataset_name := ''coco''\<rparr>"
  have v: "0 < batch_size ?V" "\<not> bVerbose ?V \<or> log_freq ?V \<noteq> 0"
    "\<not> eval_pose (dataset_name ?V) \<and> dataset_name ?V \<noteq> ''lsp'' \<and> result_file ?V = None"
    by (simp_all add: vibe_args_def demo_args_def eval_pose_def)
  have c: "0 < batch_size ?C" "\<not> bVerbose ?C \<or> log_freq ?C \<noteq> 0"
    "\<not> eval_pose_pkl (dataset_name ?C) \<and> dataset_name ?C \<noteq> ''lsp''
       \<and> (\<forall>b \<in> set (dataset ?C). path_exists demo_env (pklfilepath b))
       \<and> writes_result_pkl demo_env ?C"
    by (simp_all add: demo_args_def eval_pose_pkl_def demo_env_def writes_result_pkl_def)
  have m: "times1000 (np_mean (all_values sample_mpjpe demo_dataset)) = Finite 20"
    "times1000 (np_mean (all_values (sample_recon demo_env) demo_dataset)) = Finite 0"
    by (simp_all add: all_values_demo np_mean_demo)
  have 1: "\<exists>printed. run_evaluation demo_env demo_args
      = Inr (MeanErrors (Finite 20) (Finite 0), printed)"
    using run_evaluation_return_value [OF demo_hyps(2,4), of demo_env,
        THEN conjunct1, rule_format, OF a]
    unfolding d m .
  have 2: "\<exists>printed. run_evaluation_pkl demo_env vibe_args
      = Inr (MeanErrors (Finite 20) (Finite 0), printed)"
    using run_evaluation_return_value [OF vibe_hyps(2,4), of demo_env,
        THEN conjunct2, THEN conjunct1, rule_format, OF b]
    unfolding vibe_hyps(5) m .
  have 3: "\<exists>printed. run_evaluation demo_env ?V = Inr (MinusOne, printed)"
    using run_evaluation_return_value [OF v(1,2), of demo_env,
        THEN conjunct2, THEN conjunct2, THEN conjunct1, rule_format, OF v(3)] .
  have 4: "\<exists>printed. run_evaluation_pkl demo_env ?C = Inr (MinusOne, printed)"
    using run_evaluation_return_value [OF c(1,2), of demo_env,
        THEN conjunct2, THEN conjunct2, THEN conjunct2, rule_format, OF c(3)] .
  show ?thesis using 1 2 3 4 by simp
qed

text \<open>
  The claim as stated fails: in \<open>evalfrompkl.py\<close> a run with pose evaluation that has
  recorded its first sample ends with an assertion failure when the prediction of the
  second sample is missing; for the dataset \<open>lsp\<close> a run over a dataset that is
  not empty ends with \<open>NameError\<close>, since \<open>mask\<close> is never bound; in
  \<open>eval_export.py\<close> a run with a result file and a dataset name that does not enable
  the pose evaluation ends with \<open>UnboundLocalError\<close>; and a run with a result file
  for the dataset \<open>mpi-inf-3dhp\<close> ends with \<open>ValueError\<close> in the batch of its
  first sample, whose 17 joints do not fit the arrays for 14 joints.
\<close>

theorem run_evaluation_return_value_counterexample:
  "eval_pose_pkl (dataset_name (demo_args\<lparr>batch_size := 1\<rparr>))
   \<and> map_sum id quant_mpjpe
        (eval_step_pkl first_only_env (demo_args\<lparr>batch_size := 1\<rparr>) 0 [hd demo_dataset] init_state)
       = Inr [(''seqA'', [Finite (1/100)])]
   \<and> map_sum fst id (run_evaluation_pkl first_only_env (demo_args\<lparr>batch_size := 1\<rparr>))
       = Inl AssertionError
   \<and> run_evaluation demo_env (demo_args\<lparr>dataset_name := ''lsp''\<rparr>) = Inl (NameError, [])
   \<and> run_evaluation demo_env vibe_args = Inl (UnboundLocalError, [])
   \<and> eval_pose (dataset_name mpi_args)
   \<and> map_sum fst id (run_evaluation demo_env mpi_args) = Inl ValueError"
proof -
  let ?A = "demo_args\<lparr>batch_size := 1\<rparr>"
  let ?s1 = "demo_sample ''/data/3dpw/imageFiles/seqA/image_00000.jpg'' 0 (1/100)"
  have h: "hd demo_dataset = ?s1" by (simp add: demo_dataset_def)
  have v: "\<not> bVerbose ?A \<or> log_freq ?A \<noteq> 0" "0 < batch_size ?A"
    by (simp_all add: demo_args_def)
  obtain p where p: "eval_step_pkl first_only_env ?A 0 [?s1] (state_of [] [])
      = Inr (state_of ([] @ map (entry_of first_only_env) [?s1]) p)"
    using eval_step_pkl_state_of [OF _ demo_pkl_hyps(2) v(1), of "[?s1]" first_only_env 0 "[]" "[]"]
      first_only_missing(1) by auto
  have q: "quant_mpjpe (state_of (map (entry_of first_only_env) [?s1]) p)
      = [(''seqA'', [Finite (1/100)])]"
    unfolding state_of_entries
    by (simp add: final_state_def seq_buckets_def seq_ids_def seq_samples_def imgname_demo
        seq_of_demo first_appearance_def sample_mpjpe_demo)
  have m: "\<exists>b \<in> set (dataset ?A). \<not> path_exists first_only_env (pklfilepath b)"
    using first_only_missing(2) by (simp add: demo_args_def demo_dataset_def)
  have r: "map_sum fst id (run_evaluation_pkl first_only_env ?A) = Inl AssertionError"
    using evaluation_loop_pkl_missing [OF demo_pkl_hyps(2) v(2,1) m]
    by (auto simp: run_evaluation_pkl_def)
  have l: "run_evaluation demo_env (demo_args\<lparr>dataset_name := ''lsp''\<rparr>) = Inl (NameError, [])"
    by (rule run_evaluation_lsp) (simp_all add: demo_args_def demo_dataset_def)
  have u: "run_evaluation demo_env vibe_args = Inl (UnboundLocalError, [])"
    by (rule run_evaluation_unbound)
      (simp_all add: vibe_args_def demo_args_def demo_dataset_def eval_pose_def)
  have e: "eval_pose (dataset_name mpi_args)"
    by (simp add: mpi_args_def eval_pose_def)
  have "\<exists>printed. run_evaluation demo_env mpi_args = Inl (ValueError, printed)"
    by (rule run_evaluation_joints_do_not_fit [OF e])
      (simp_all add: mpi_args_def joints_fit_def fits_joint_buffer_def)
  then have w: "map_sum fst id (run_evaluation demo_env mpi_args) = Inl ValueError"
    by auto
  show ?thesis
    using p q r l u e w demo_pkl_hyps(2) unfolding h init_state_of by simp
qed

section \<open>Missing prediction files\<close>

lemma first_missing_batch_missing:
  "\<exists>b \<in> set (concat batches). \<not> path_exists E (pklfilepath b) \<Longrightarrow>
     missing_lines E (first_missing_batch E batches) \<noteq> []"
  by (induction batches) (auto simp: list_ex_iff missing_lines_def filter_empty_conv)

text \<open>
  Claim C2, as amended.  When the prediction file of a sample of the dataset is not
  found, the run of \<open>evalfrompkl.py\<close> is not continued to its end: whatever the
  arguments, it ends with an exception, and nothing is returned.  When the pose
  evaluation is enabled, the batch size is positive and, in verbose mode, the log
  frequency is not 0, the exception is the assertion failure of \<open>assert False\<close>,
  raised in the first batch that has a missing file, and the last lines that the run has
  printed are the lines about the missing files of that batch, of which there is at
  least one.
\<close>

theorem missing_prediction_file_ends_run:
  assumes "b \<in> set (dataset A)" and "\<not> path_exists E (pklfilepath b)"
  shows "(\<exists>e printed. run_evaluation_pkl E A = Inl (e, printed))
       \<and> (eval_pose_pkl (dataset_name A) \<and> 0 < batch_size A
            \<and> (\<not> bVerbose A \<or> log_freq A \<noteq> 0) \<longrightarrow>
          (\<exists>pre. run_evaluation_pkl E A
             = Inl (AssertionError,
                    pre @ missing_lines E
                            (first_missing_batch E (chunks (batch_size A) (dataset A))))
           \<and> missing_lines E (first_missing_batch E (chunks (batch_size A) (dataset A)))
               \<noteq> []))"
proof -
  have m: "\<exists>b \<in> set (dataset A). \<not> path_exists E (pklfilepath b)"
    using assms by blast
  have 1: "\<exists>e printed. run_evaluation_pkl E A = Inl (e, printed)"
    using evaluation_loop_pkl_fails [OF m] by (auto simp: run_evaluation_pkl_def)
  have 2: "\<exists>pre. run_evaluation_pkl E A
             = Inl (AssertionError,
                    pre @ missing_lines E
                            (first_missing_batch E (chunks (batch_size A) (dataset A))))
           \<and> missing_lines E (first_missing_batch E (chunks (batch_size A) (dataset A)))
               \<noteq> []"
    if "eval_pose_pkl (dataset_name A)" "0 < batch_size A" "\<not> bVerbose A \<or> log_freq A \<noteq> 0"
  proof -
    have "concat (chunks (batch_size A) (dataset A)) = dataset A"
      using that(2) by (rule concat_chunks)
    then have "missing_lines E (first_missing_batch E (chunks (batch_size A) (dataset A))) \<noteq> []"
      using first_missing_batch_missing [of "chunks (batch_size A) (dataset A)" E] m by simp
    then show ?thesis
      using evaluation_loop_pkl_missing [OF that m] by (auto simp: run_evaluation_pkl_def)
  qed
  show ?thesis using 1 2 by blast
qed

text \<open>In the example run with a batch size of 1, when only the prediction of the first
  sample exists: the first batch is evaluated, and the run ends in the second batch.\<close>

theorem missing_prediction_file_ends_run_witness:
  "\<exists>pre. run_evaluation_pkl first_only_env (demo_args\<lparr>batch_size := 1\<rparr>)
      = Inl (AssertionError,
             pre @ [MissingFile (os_path_join pklDir ''seqB_image_00000_1.pkl'')])"
proof -
  let ?A = "demo_args\<lparr>batch_size := 1\<rparr>"
  let ?s2 = "demo_sample ''/data/3dpw/imageFiles/seqB/image_00000.jpg'' 1 (2/100)"
  have b: "?s2 \<in> set (dataset ?A)"
    by (simp add: demo_args_def demo_dataset_def)
  have h: "eval_pose_pkl (dataset_name ?A) \<and> 0 < batch_size ?A
      \<and> (\<not> bVerbose ?A \<or> log_freq ?A \<noteq> 0)"
    by (simp add: demo_args_def eval_pose_pkl_def)
  have c: "chunks (batch_size ?A) (dataset ?A)
      = [[demo_sample ''/data/3dpw/imageFiles/seqA/image_00000.jpg'' 0 (1/100)], [?s2],
         [demo_sample ''/data/3dpw/imageFiles/seqA/image_00001.jpg'' 2 (3/100)]]"
    by (simp add: demo_args_def demo_dataset_def chunks_one)
  have ml: "missing_lines first_only_env [?s2] = [MissingFile (pklfilepath ?s2)]"
    by (simp add: missing_lines_def first_only_missing)
  have f: "missing_lines first_only_env
       (first_missing_batch first_only_env (chunks (batch_size ?A) (dataset ?A)))
     = [MissingFile (os_path_join pklDir ''seqB_image_00000_1.pkl'')]"
    unfolding c using ml by (simp add: first_only_missing) (simp add: pklfilepath_demo)
  show ?thesis
    using missing_prediction_file_ends_run [OF b first_only_missing(2)] h
    unfolding f by blast
qed

text \<open>
  The claim as stated fails: when no prediction file exists, the example run prints the
  paths of the two missing files of the first batch and ends there with an assertion
  failure; no sample is skipped, no count is kept, and nothing is reported at the end.
\<close>

theorem missing_prediction_file_counterexample:
  "run_evaluation_pkl no_files_env demo_args
     = Inl (AssertionError,
            [MissingFile (os_path_join pklDir ''seqA_image_00000_0.pkl''),
             MissingFile (os_path_join pklDir ''seqB_image_00000_1.pkl'')])"
proof -
  have c: "chunks 2 demo_dataset
      = [[demo_sample ''/data/3dpw/imageFiles/seqA/image_00000.jpg'' 0 (1/100),
          demo_sample ''/data/3dpw/imageFiles/seqB/image_00000.jpg'' 1 (2/100)],
         [demo_sample ''/data/3dpw/imageFiles/seqA/image_00001.jpg'' 2 (3/100)]]"
    by (simp add: demo_dataset_def chunks_Cons) (simp add: chunks.simps)
  have m: "\<exists>b \<in> set [demo_sample ''/data/3dpw/imageFiles/seqA/image_00000.jpg'' 0 (1/100),
          demo_sample ''/data/3dpw/imageFiles/seqB/image_00000.jpg'' 1 (2/100)].
        \<not> path_exists no_files_env (pklfilepath b)"
    by (auto simp: no_files_env_def)
  have nf: "path_exists no_files_env p = False" for p
    by (simp add: no_files_env_def)
  have e: "eval_step_pkl no_files_env demo_args 0
        [demo_sample ''/data/3dpw/imageFiles/seqA/image_00000.jpg'' 0 (1/100),
         demo_sample ''/data/3dpw/imageFiles/seqB/image_00000.jpg'' 1 (1/50)] init_state
      = Inl (AssertionError,
            [MissingFile (os_path_join pklDir ''seqA_image_00000_0.pkl''),
             MissingFile (os_path_join pklDir ''seqB_image_00000_1.pkl'')])"
    using eval_step_pkl_missing [OF m, of demo_args 0 init_state]
    by (simp add: init_state_def missing_lines_def nf pklfilepath_demo)
  have a: "batch_size demo_args = 2" "dataset demo_args = demo_dataset"
    by (simp_all add: demo_args_def)
  show ?thesis
    by (simp add: run_evaluation_pkl_def evaluation_loop_pkl_def data_loader_def a c e)
qed


section \<open>Non-finite error values\<close>

text \<open>A collaborator whose reconstruction error is \<open>nan\<close> for a prediction with
  all joints at the origin (the alignment divides by the variance of the prediction),
  and a dataset with one such sample.\<close>

definition nan_env :: env where
  "nan_env =
     demo_env\<lparr>reconstruction_error :=
       (\<lambda>P G. if list_all (\<lambda>p. p = (0, 0, 0)) P then NaN else Finite 0)\<rparr>"

definition nan_args :: args where
  "nan_args =
     \<lparr>dataset_name = ''3dpw'',
      dataset = demo_dataset @ [demo_sample ''/data/3dpw/imageFiles/seqB/image_00001.jpg'' 3 0],
      result_file = None, batch_size = 2, log_freq = 2, bVerbose = False\<rparr>"

lemma nan_hyps:
  "eval_pose (dataset_name nan_args)" "0 < batch_size nan_args" "dataset nan_args \<noteq> []"
  "\<not> bVerbose nan_args \<or> log_freq nan_args \<noteq> 0"
  "stores_joints nan_args" "writes_result nan_env nan_args"
  by (simp_all add: nan_args_def eval_pose_def stores_joints_def writes_result_def)

lemma sample_recon_nan:
  "sample_recon nan_env (demo_sample path i 0) = NaN"
  by (simp add: sample_recon_def nan_env_def demo_sample_def list_all_iff)

lemma mpjpe_nan_args:
  "times1000 (np_mean (all_values sample_mpjpe (dataset nan_args))) = Finite 15"
proof -
  let ?m = "\<lambda>b. \<bar>fst (hd (pred_keypoints_3d b))\<bar>"
  have f: "\<forall>b \<in> set (dataset nan_args). sample_mpjpe b = Finite (?m b)"
    by (simp add: nan_args_def demo_dataset_def sample_mpjpe_demo) (simp add: demo_sample_def)
  have "sum_list (map ?m (dataset nan_args)) / real (length (dataset nan_args)) * 1000 = 15"
    by (simp add: nan_args_def demo_dataset_def demo_sample_def)
  then show ?thesis
    using np_mean_all_values_Finite [OF f nan_hyps(3)] by simp
qed

lemma np_mean_sample_NaN:
  assumes "b \<in> set ds" and "f b = NaN"
  shows "times1000 (np_mean (all_values f ds)) = NaN"
proof -
  have "NaN \<in> set (all_values f ds)"
    using assms by (simp add: set_all_values) (metis imageI)
  then show ?thesis by (simp add: np_mean_has_NaN)
qed

text \<open>
  Claim C3, as amended.  No finiteness check is made: every value is recorded as it is,
  no sample is left out of the buckets, and when the reconstruction error of one sample
  is \<open>nan\<close>, the buckets contain it and the overall mean of the reconstruction error
  that the run returns is \<open>nan\<close>.  (The run is one whose results can be saved: no
  result file is given, or the joints of every sample fit the arrays for the joints and
  the file can be written.)
\<close>

theorem nan_value_enters_the_mean:
  assumes "eval_pose (dataset_name A)" and "0 < batch_size A"
    and "\<not> bVerbose A \<or> log_freq A \<noteq> 0"
    and "b \<in> set (dataset A)" and "sample_recon E b = NaN"
    and "stores_joints A" and "writes_result E A"
  shows "\<exists>s a printed.
           evaluation_loop E A = Inr s
         \<and> length (concat (map snd (quant_recon_err s))) = length (dataset A)
         \<and> NaN \<in> set (concat (map snd (quant_recon_err s)))
         \<and> run_evaluation E A = Inr (MeanErrors a NaN, printed)"
proof -
  have ne: "dataset A \<noteq> []" using assms(4) by auto
  obtain p where p: "evaluation_loop E A = Inr (final_state E (dataset A) p)"
    using evaluation_loop_final_state [OF assms(1,2,3,6)] by blast
  have q: "concat (map snd (quant_recon_err (final_state E (dataset A) p)))
      = all_values (sample_recon E) (dataset A)"
    by (simp add: final_state_def all_values_def)
  have n: "NaN \<in> set (all_values (sample_recon E) (dataset A))"
    using assms(4,5) by (simp add: set_all_values) (metis imageI)
  obtain printed where "run_evaluation E A
      = Inr (MeanErrors (times1000 (np_mean (all_values sample_mpjpe (dataset A)))) NaN, printed)"
    using run_evaluation_pose [OF assms(1,2) ne assms(3,6,7)]
      np_mean_sample_NaN [of b "dataset A" "sample_recon E", OF assms(4,5)] by auto
  then show ?thesis
    using p q n length_all_values [of "sample_recon E" "dataset A"] by metis
qed

theorem nan_value_enters_the_mean_witness:
  "\<exists>a printed. run_evaluation nan_env nan_args = Inr (MeanErrors a NaN, printed)"
proof -
  have b: "demo_sample ''/data/3dpw/imageFiles/seqB/image_00001.jpg'' 3 0 \<in> set (dataset nan_args)"
    by (simp add: nan_args_def)
  show ?thesis
    using nan_value_enters_the_mean [OF nan_hyps(1,2,4) b sample_recon_nan nan_hyps(5,6)]
    by blast
qed

text \<open>
  The claim as stated fails: of four samples with the absolute errors 10, 20, 30 and 0
  millimeters, the last one, whose reconstruction error is \<open>nan\<close>, is averaged
  into both means.
\<close>

theorem non_finite_value_counterexample:
  "map_sum id fst (run_evaluation nan_env nan_args) = Inr (MeanErrors (Finite 15) NaN)"
proof -
  have b: "demo_sample ''/data/3dpw/imageFiles/seqB/image_00001.jpg'' 3 0 \<in> set (dataset nan_args)"
    by (simp add: nan_args_def)
  obtain printed where "run_evaluation nan_env nan_args
      = Inr (MeanErrors (Finite 15) NaN, printed)"
    using run_evaluation_pose [OF nan_hyps]
      np_mean_sample_NaN [of _ "dataset nan_args" "sample_recon nan_env", OF b sample_recon_nan]
      mpjpe_nan_args by auto
  then show ?thesis by simp
qed


section \<open>The intermediate results\<close>

text \<open>A verbose run over two samples of one sequence, with the absolute errors 10 and
  30 millimeters, a batch size of 1 and a log frequency of 2: the intermediate results
  are printed once, after the second batch.\<close>

definition progress_args :: args where
  "progress_args =
     \<lparr>dataset_name = ''3dpw'',
      dataset = [demo_sample ''/data/3dpw/imageFiles/seqA/image_00000.jpg'' 0 (1/100),
                 demo_sample ''/data/3dpw/imageFiles/seqA/image_00001.jpg'' 2 (3/100)],
      result_file = None, batch_size = 1, log_freq = 2, bVerbose = True\<rparr>"

lemma sample_error_demo:
  "sample_error (pred_keypoints_3d (demo_sample path i d)) (gt_keypoints_3d (demo_sample path i d)) = Finite \<bar>d\<bar>"
  using sample_mpjpe_demo [of path i d] by (simp add: sample_mpjpe_def)

lemma absolute_error_single: "absolute_error [P] [G] = [sample_error P G]"
  by (simp add: absolute_error_def tensor_mean_last_def tensor_sqrt_def tensor_sum_last_def
      tensor_pow2_def tensor_sub_def sample_error_def)

lemma progress_fields:
  "dataset_name progress_args = ''3dpw''" "batch_size progress_args = 1"
  "log_freq progress_args = 2" "bVerbose progress_args"
  "length (dataset progress_args) = 2" "result_file progress_args = None"
  by (simp_all add: progress_args_def)

lemma progress_step0:
  "eval_step E progress_args 0
     [demo_sample ''/data/3dpw/imageFiles/seqA/image_00000.jpg'' 0 (1/100)] init_state
   = Inr \<lparr>quant_mpjpe = [(''seqA'', [Finite (1/100)])],
          quant_recon_err = [(''seqA'', [sample_recon E
             (demo_sample ''/data/3dpw/imageFiles/seqA/image_00000.jpg'' 0 (1/100))])],
          stdout = [BatchLine ''seqA'' (Finite 10)
             (times1000 (np_mean [sample_recon E
               (demo_sample ''/data/3dpw/imageFiles/seqA/image_00000.jpg'' 0 (1/100))]))
             (Finite 10)
             (times1000 (np_mean [sample_recon E
               (demo_sample ''/data/3dpw/imageFiles/seqA/image_00000.jpg'' 0 (1/100))]))]\<rparr>"
  by (simp add: eval_step_def progress_fields eval_pose_def eval_masks_def init_state_def
      eval_pose_batch_def absolute_error_single Let_def imgname_demo seq_of_demo
      sample_error_demo record_sample_def dict_contains_def np_hstack_def
      print_intermediate_def np_mean_def np_sum_def sample_recon_def mean_mm_def
      save_results_batch_def)

lemma progress_step1:
  "eval_step E progress_args (Suc 0)
     [demo_sample ''/data/3dpw/imageFiles/seqA/image_00001.jpg'' 2 (3/100)]
     \<lparr>quant_mpjpe = [(''seqA'', [Finite (1/100)])],
      quant_recon_err = [(''seqA'', [r0])],
      stdout = printed\<rparr>
   = Inr \<lparr>quant_mpjpe = [(''seqA'', [Finite (1/100), Finite (3/100)])],
          quant_recon_err = [(''seqA'', [r0, sample_recon E
             (demo_sample ''/data/3dpw/imageFiles/seqA/image_00001.jpg'' 2 (3/100))])],
          stdout = printed @
            [BatchLine ''seqA'' (Finite 30)
               (times1000 (np_mean [sample_recon E
                 (demo_sample ''/data/3dpw/imageFiles/seqA/image_00001.jpg'' 2 (3/100))]))
               (Finite 20)
               (times1000 (np_mean [r0, sample_recon E
                 (demo_sample ''/data/3dpw/imageFiles/seqA/image_00001.jpg'' 2 (3/100))])),
             ProgressMPJPE (Finite 0),
             ProgressReconstructionError (Finite 0),
             BlankLine]\<rparr>"
  by (simp add: eval_step_def progress_fields eval_pose_def eval_masks_def
      eval_pose_batch_def absolute_error_single Let_def imgname_demo seq_of_demo
      sample_error_demo record_sample_def dict_contains_def np_hstack_def
      print_intermediate_def np_mean_def np_sum_def sample_recon_def np_zeros_def
      numeral_2_eq_2 mean_mm_def save_results_batch_def)


lemma progress_finish:
  "\<exists>rv rep. finish (final_report E) eval_pose progress_args
     \<lparr>quant_mpjpe = [(''seqA'', [Finite (1/100), Finite (3/100)])],
      quant_recon_err = [(''seqA'', [r0, r1])],
      stdout = printed\<rparr>
   = Inr (rv, printed @ [FinalResults, BlankLine, Report rep])"
  by (simp add: finish_def progress_fields eval_pose_def final_report_def build_output_str_def
      np_hstack_def mean_mm_def)

text \<open>
  Claim C1 does not hold of the code.  In the run above, whatever the collaborators are,
  the line printed for the second batch shows the running overall mean of the MPJPE,
  20 millimeters, and the intermediate results printed right after it show 0 for both
  metrics: they are computed from the arrays \<open>mpjpe\<close> and \<open>recon_err\<close>, which
  are never written.
\<close>

theorem progress_output_is_zero:
  "\<exists>rv r r' t t' rep.
     run_evaluation E progress_args
       = Inr (rv, [BatchLine ''seqA'' (Finite 10) r (Finite 10) t,
                   BatchLine ''seqA'' (Finite 30) r' (Finite 20) t',
                   ProgressMPJPE (Finite 0),
                   ProgressReconstructionError (Finite 0),
                   BlankLine, FinalResults, BlankLine, Report rep])"
proof -
  let ?a = "demo_sample ''/data/3dpw/imageFiles/seqA/image_00000.jpg'' 0 (1/100)"
  let ?b = "demo_sample ''/data/3dpw/imageFiles/seqA/image_00001.jpg'' 2 (3/100)"
  have l: "data_loader (batch_size progress_args) (dataset progress_args) = Inr [[?a], [?b]]"
    by (simp add: data_loader_def progress_args_def chunks_one)
  obtain s where s: "evaluation_loop E progress_args = Inr s"
    and q: "quant_mpjpe s = [(''seqA'', [Finite (1/100), Finite (3/100)])]"
           "\<exists>r0 r1. quant_recon_err s = [(''seqA'', [r0, r1])]"
    and o: "\<exists>r r' t t'. stdout s = [BatchLine ''seqA'' (Finite 10) r (Finite 10) t,
                   BatchLine ''seqA'' (Finite 30) r' (Finite 20) t',
                   ProgressMPJPE (Finite 0),
                   ProgressReconstructionError (Finite 0),
                   BlankLine]"
    by (simp add: evaluation_loop_def l progress_step0 progress_step1)
  obtain r0 r1 where r: "quant_recon_err s = [(''seqA'', [r0, r1])]" using q(2) by blast
  have e: "s = \<lparr>quant_mpjpe = [(''seqA'', [Finite (1/100), Finite (3/100)])],
      quant_recon_err = [(''seqA'', [r0, r1])], stdout = stdout s\<rparr>"
    using q(1) r by simp
  obtain rv rep where "finish (final_report E) eval_pose progress_args s
      = Inr (rv, stdout s @ [FinalResults, BlankLine, Report rep])"
    using progress_finish [of E r0 r1 "stdout s"] e by metis
  then show ?thesis
    using s o by (auto simp: run_evaluation_def save_results_def progress_fields)
qed


section \<open>Reconstruction error\<close>

text \<open>
  The function \<open>reconstruction_error\<close> of \<open>utils.pose_utils\<close> is not among the source
  files.  The specification words it (section 4.1): for each sample, find the rigid
  similarity transform (rotation, uniform scale, translation) that best aligns P to G in
  a least-squares sense, apply it to P, then compute the MPJPE between the aligned P and
  G.  The definitions of this section follow these words.
\<close>

type_synonym mat3 = "vec3 \<times> vec3 \<times> vec3"

type_synonym similarity = "real \<times> mat3 \<times> vec3"

text \<open>Modelled from the spec: the linear algebra that \<open>reconstruction_error\<close> (missing
  from the source files) needs for a rotation: the inner product, the cross product and
  the product of a matrix, given by its rows, with a vector.\<close>

fun dot :: "vec3 \<Rightarrow> vec3 \<Rightarrow> real" where
  "dot (a, b, c) (x, y, z) = a * x + b * y + c * z"

fun cross :: "vec3 \<Rightarrow> vec3 \<Rightarrow> vec3" where
  "cross (a, b, c) (x, y, z) = (b * z - c * y, c * x - a * z, a * y - b * x)"

fun mat_vec :: "mat3 \<Rightarrow> vec3 \<Rightarrow> vec3" where
  "mat_vec (r1, r2, r3) p = (dot r1 p, dot r2 p, dot r3 p)"

text \<open>Modelled from the spec: the rotation of the transform of \<open>reconstruction_error\<close>
  (missing from the source files) is a matrix with orthonormal rows and determinant 1.\<close>

fun is_rotation :: "mat3 \<Rightarrow> bool" where
  "is_rotation (r1, r2, r3) \<longleftrightarrow>
     dot r1 r1 = 1 \<and> dot r2 r2 = 1 \<and> dot r3 r3 = 1
     \<and> dot r1 r2 = 0 \<and> dot r1 r3 = 0 \<and> dot r2 r3 = 0
     \<and> dot r1 (cross r2 r3) = 1"

fun vadd :: "vec3 \<Rightarrow> vec3 \<Rightarrow> vec3" where
  "vadd (a, b, c) (x, y, z) = (a + x, b + y, c + z)"

fun vscale :: "real \<Rightarrow> vec3 \<Rightarrow> vec3" where
  "vscale s (x, y, z) = (s * x, s * y, s * z)"

text \<open>Modelled from the spec: the rigid similarity transform of \<open>reconstruction_error\<close>
  (missing from the source files) rotates a joint, scales it uniformly and translates
  it.\<close>

fun apply_similarity :: "similarity \<Rightarrow> vec3 \<Rightarrow> vec3" where
  "apply_similarity (s, R, t) p = vadd (vscale s (mat_vec R p)) t"

text \<open>Modelled from the spec: a similarity for \<open>reconstruction_error\<close> (missing from
  the source files) has a positive scale factor and a rotation.\<close>

fun is_similarity :: "similarity \<Rightarrow> bool" where
  "is_similarity (s, R, t) \<longleftrightarrow> 0 < s \<and> is_rotation R"

declare apply_similarity.simps [simp del]

text \<open>Modelled from the spec: the least-squares objective of \<open>reconstruction_error\<close>
  (missing from the source files) is the sum, over the joints, of the squared distance
  between corresponding joints.\<close>

definition sq_dist :: "vec3 \<Rightarrow> vec3 \<Rightarrow> real" where
  "sq_dist p g = vsum (vpow2 (vsub p g))"

definition squared_error :: "vec3 list \<Rightarrow> vec3 list \<Rightarrow> real" where
  "squared_error P G = sum_list (map2 sq_dist P G)"

text \<open>
  Modelled from the spec: a similarity that best aligns P to G in the least-squares
  sense, as \<open>reconstruction_error\<close> (missing from the source files) finds it, is one
  whose sum of squared joint distances is not larger than that of any other similarity.
\<close>

definition best_alignment :: "similarity \<Rightarrow> vec3 list \<Rightarrow> vec3 list \<Rightarrow> bool" where
  "best_alignment T P G \<longleftrightarrow>
     is_similarity T
     \<and> (\<forall>T'. is_similarity T' \<longrightarrow>
           squared_error (map (apply_similarity T) P) G
             \<le> squared_error (map (apply_similarity T') P) G)"

text \<open>
  Modelled from the spec: what \<open>reconstruction_error\<close> (missing from the source
  files) returns for a sample.  \<open>e\<close> is a reconstruction error of the sample when it
  is the MPJPE (as \<open>mpjpe_spec\<close> words it) between P, aligned by a best similarity,
  and G.
\<close>

definition is_reconstruction_error :: "vec3 list \<Rightarrow> vec3 list \<Rightarrow> real \<Rightarrow> bool" where
  "is_reconstruction_error P G e \<longleftrightarrow>
     (\<exists>T. best_alignment T P G \<and> e = mpjpe_spec (map (apply_similarity T) P) G)"

definition identity_similarity :: similarity where
  "identity_similarity = (1, ((1, 0, 0), (0, 1, 0), (0, 0, 1)), (0, 0, 0))"

lemma is_similarity_identity: "is_similarity identity_similarity"
  by (simp add: identity_similarity_def)

lemma apply_identity: "apply_similarity identity_similarity p = p"
  by (cases p) (simp add: identity_similarity_def apply_similarity.simps)

lemma map_apply_identity: "map (apply_similarity identity_similarity) P = P"
  by (induction P) (simp_all add: apply_identity)

lemma best_alignment_le_identity:
  "best_alignment T P G \<Longrightarrow> squared_error (map (apply_similarity T) P) G \<le> squared_error P G"
  using is_similarity_identity map_apply_identity [of P]
  unfolding best_alignment_def by metis

text \<open>The mean of a list of numbers is at most their root mean square.\<close>

lemma two_x_sum_le:
  "2 * x * sum_list xs \<le> real (length xs) * x\<^sup>2 + sum_list (map (\<lambda>y. y\<^sup>2) xs)"
proof (induction xs)
  case Nil
  show ?case by simp
next
  case (Cons y ys)
  have "2 * x * y \<le> x\<^sup>2 + y\<^sup>2"
    using sum_squares_bound [of x y] by (simp add: mult.assoc)
  then show ?case using Cons by (simp add: algebra_simps)
qed

lemma sum_list_squared_le:
  "(sum_list xs)\<^sup>2 \<le> real (length xs) * sum_list (map (\<lambda>y. y\<^sup>2) xs)"
proof (induction xs)
  case Nil
  show ?case by simp
next
  case (Cons x xs)
  have "(x + sum_list xs)\<^sup>2 = x\<^sup>2 + 2 * x * sum_list xs + (sum_list xs)\<^sup>2"
    by (simp add: power2_sum)
  also have "\<dots> \<le> x\<^sup>2 + (real (length xs) * x\<^sup>2 + sum_list (map (\<lambda>y. y\<^sup>2) xs))
                  + real (length xs) * sum_list (map (\<lambda>y. y\<^sup>2) xs)"
    using two_x_sum_le [of x xs] Cons by linarith
  finally show ?case by (simp add: algebra_simps)
qed

lemma mean_le_root_mean_square:
  assumes "xs \<noteq> []"
  shows "sum_list xs / real (length xs)
           \<le> sqrt (sum_list (map (\<lambda>y. y\<^sup>2) xs) / real (length xs))"
proof (rule real_le_rsqrt)
  let ?n = "real (length xs)"
  have n: "0 < ?n" using assms by simp
  have "(sum_list xs / ?n)\<^sup>2 = (sum_list xs)\<^sup>2 / ?n\<^sup>2"
    by (simp add: power_divide)
  also have "\<dots> \<le> (?n * sum_list (map (\<lambda>y. y\<^sup>2) xs)) / ?n\<^sup>2"
    using sum_list_squared_le [of xs] n by (simp add: divide_right_mono)
  also have "\<dots> = sum_list (map (\<lambda>y. y\<^sup>2) xs) / ?n"
    using n by (simp add: power2_eq_square)
  finally show "(sum_list xs / ?n)\<^sup>2 \<le> sum_list (map (\<lambda>y. y\<^sup>2) xs) / ?n" .
qed

lemma mpjpe_spec_list:
  assumes "length P = length G" and "P \<noteq> []"
  shows "mpjpe_spec P G = sum_list (map2 (\<lambda>p g. sqrt (sq_dist p g)) P G) / real (length P)"
proof -
  have "sum_list (map2 (\<lambda>p g. sqrt (sq_dist p g)) P G)
          = (\<Sum>j<length P. sqrt (sq_dist (P ! j) (G ! j)))"
    using assms(1) by (rule sum_list_map2_nth)
  then show ?thesis
    by (simp add: mpjpe_spec_def coord_sum sq_dist_def)
qed

lemma sq_dist_nonneg: "0 \<le> sq_dist p g"
  by (cases p; cases g) (simp add: sq_dist_def)

lemma mpjpe_le_rms:
  assumes "length P = length G" and "P \<noteq> []"
  shows "mpjpe_spec P G \<le> sqrt (squared_error P G / real (length P))"
proof -
  let ?ds = "map2 (\<lambda>p g. sqrt (sq_dist p g)) P G"
  have len: "length ?ds = length P" using assms(1) by simp
  have ne: "?ds \<noteq> []" using assms len by (metis length_0_conv)
  have sq: "map (\<lambda>y. y\<^sup>2) ?ds = map2 sq_dist P G"
    by (simp add: sq_dist_nonneg split_def)
  show ?thesis
    using mean_le_root_mean_square [OF ne]
    unfolding mpjpe_spec_list [OF assms] squared_error_def len sq .
qed


text \<open>
  An example with 17 joints: eight pairs of opposite joints on the three axes and one
  joint at the origin.  The prediction equals the ground truth except for the last joint,
  which the ground truth has 1.7 meters away.  The joints are neither all zero nor on a
  line or in a plane.
\<close>

fun vneg :: "vec3 \<Rightarrow> vec3" where
  "vneg (x, y, z) = (- x, - y, - z)"

definition symmetric :: "vec3 list \<Rightarrow> vec3 list" where
  "symmetric ps = concat (map (\<lambda>p. [p, vneg p]) ps)"

definition outlier_pred :: "vec3 list" where
  "outlier_pred =
     [(1/10, 0, 0), (-1/10, 0, 0), (0, 1/10, 0), (0, -1/10, 0), (0, 0, 1/10), (0, 0, -1/10),
      (2/10, 0, 0), (-2/10, 0, 0), (0, 2/10, 0), (0, -2/10, 0), (0, 0, 2/10), (0, 0, -2/10),
      (3/10, 0, 0), (-3/10, 0, 0), (0, 3/10, 0), (0, -3/10, 0),
      (0, 0, 0)]"

definition outlier_gt :: "vec3 list" where
  "outlier_gt =
     [(1/10, 0, 0), (-1/10, 0, 0), (0, 1/10, 0), (0, -1/10, 0), (0, 0, 1/10), (0, 0, -1/10),
      (2/10, 0, 0), (-2/10, 0, 0), (0, 2/10, 0), (0, -2/10, 0), (0, 0, 2/10), (0, 0, -2/10),
      (3/10, 0, 0), (-3/10, 0, 0), (0, 3/10, 0), (0, -3/10, 0),
      (17/10, 0, 0)]"

definition outlier_alignment :: similarity where
  "outlier_alignment = (1, ((1, 0, 0), (0, 1, 0), (0, 0, 1)), (1/10, 0, 0))"

definition outlier_base :: "vec3 list" where
  "outlier_base =
     [(1/10, 0, 0), (0, 1/10, 0), (0, 0, 1/10), (2/10, 0, 0), (0, 2/10, 0), (0, 0, 2/10),
      (3/10, 0, 0), (0, 3/10, 0)]"

lemma outlier_structure:
  "outlier_pred = symmetric outlier_base @ [(0, 0, 0)]"
  "outlier_gt = symmetric outlier_base @ [(17/10, 0, 0)]"
  by (simp_all add: outlier_pred_def outlier_gt_def outlier_base_def symmetric_def)

lemma squared_error_append:
  "length A = length A' \<Longrightarrow>
     squared_error (A @ B) (A' @ B') = squared_error A A' + squared_error B B'"
  by (simp add: squared_error_def)

lemma square_pair: "(u + t)\<^sup>2 + (- u + t)\<^sup>2 = 2 * u\<^sup>2 + 2 * t\<^sup>2" for u t :: real
  by (simp add: power2_eq_square algebra_simps)

lemma dot_vneg: "dot r (vneg p) = - dot r p"
  by (cases r; cases p) simp

lemma sq_dist_pair:
  "2 * dot t t
     \<le> sq_dist (apply_similarity (s, R, t) p) p
       + sq_dist (apply_similarity (s, R, t) (vneg p)) (vneg p)"
proof -
  obtain r1 r2 r3 where R: "R = (r1, r2, r3)" by (cases R) auto
  obtain x y z where p: "p = (x, y, z)" by (cases p) auto
  obtain a b c where t: "t = (a, b, c)" by (cases t) auto
  have e: "(s * d + a' - x')\<^sup>2 + (- (s * d) + a' + x')\<^sup>2 = 2 * (s * d - x')\<^sup>2 + 2 * a'\<^sup>2"
    for d a' x' :: real
    using square_pair [of "s * d - x'" a'] by (simp add: algebra_simps)
  have "sq_dist (apply_similarity (s, R, t) p) p
       + sq_dist (apply_similarity (s, R, t) (vneg p)) (vneg p)
      = (2 * (s * dot r1 p - x)\<^sup>2 + 2 * a\<^sup>2) + (2 * (s * dot r2 p - y)\<^sup>2 + 2 * b\<^sup>2)
        + (2 * (s * dot r3 p - z)\<^sup>2 + 2 * c\<^sup>2)"
    unfolding R t sq_dist_def apply_similarity.simps mat_vec.simps dot_vneg
    using e [of "dot r1 p" a x] e [of "dot r2 p" b y] e [of "dot r3 p" c z]
    by (simp add: p)
  moreover have "dot t t = a\<^sup>2 + b\<^sup>2 + c\<^sup>2"
    by (simp add: t power2_eq_square)
  ultimately show ?thesis by simp
qed

lemma symmetric_lower_bound:
  "2 * real (length ps) * dot t t
     \<le> squared_error (map (apply_similarity (s, R, t)) (symmetric ps)) (symmetric ps)"
proof (induction ps)
  case Nil
  show ?case by (simp add: symmetric_def squared_error_def)
next
  case (Cons p ps)
  have "squared_error (map (apply_similarity (s, R, t)) (symmetric (p # ps))) (symmetric (p # ps))
      = sq_dist (apply_similarity (s, R, t) p) p
        + sq_dist (apply_similarity (s, R, t) (vneg p)) (vneg p)
        + squared_error (map (apply_similarity (s, R, t)) (symmetric ps)) (symmetric ps)"
    by (simp add: symmetric_def squared_error_def)
  then show ?case
    using sq_dist_pair [of t s R p] Cons by (simp add: algebra_simps)
qed

lemma apply_similarity_origin: "apply_similarity (s, R, t) (0, 0, 0) = t"
  by (cases R; cases t) (auto simp: apply_similarity.simps)

lemma outlier_lower_bound:
  "68/25 \<le> squared_error (map (apply_similarity (s, R, t)) outlier_pred) outlier_gt"
proof -
  obtain a b c where t: "t = (a, b, c)" by (cases t) auto
  have "squared_error (map (apply_similarity (s, R, t)) outlier_pred) outlier_gt
      = squared_error (map (apply_similarity (s, R, t)) (symmetric outlier_base))
          (symmetric outlier_base)
        + sq_dist t (17/10, 0, 0)"
    unfolding outlier_structure
    by (simp add: squared_error_append apply_similarity_origin)
       (simp add: squared_error_def)
  moreover have "2 * real (length outlier_base) * dot t t
      \<le> squared_error (map (apply_similarity (s, R, t)) (symmetric outlier_base))
          (symmetric outlier_base)"
    by (rule symmetric_lower_bound)
  moreover have "2 * real (length outlier_base) * dot t t + sq_dist t (17/10, 0, 0)
      = 68/25 + 17 * (a - 1/10)\<^sup>2 + 17 * b\<^sup>2 + 17 * c\<^sup>2"
    by (simp add: t outlier_base_def sq_dist_def power2_eq_square algebra_simps)
  moreover have "0 \<le> 17 * (a - 1/10)\<^sup>2 + 17 * b\<^sup>2 + 17 * c\<^sup>2"
    by simp
  ultimately show ?thesis by linarith
qed

lemma outlier_aligned:
  "map (apply_similarity outlier_alignment) outlier_pred =
     [(2/10, 0, 0), (0, 0, 0), (1/10, 1/10, 0), (1/10, -1/10, 0), (1/10, 0, 1/10),
      (1/10, 0, -1/10),
      (3/10, 0, 0), (-1/10, 0, 0), (1/10, 2/10, 0), (1/10, -2/10, 0), (1/10, 0, 2/10),
      (1/10, 0, -2/10),
      (4/10, 0, 0), (-2/10, 0, 0), (1/10, 3/10, 0), (1/10, -3/10, 0),
      (1/10, 0, 0)]"
  by (simp add: outlier_alignment_def outlier_pred_def apply_similarity.simps)

lemma outlier_squared_error:
  "squared_error (map (apply_similarity outlier_alignment) outlier_pred) outlier_gt = 68/25"
  unfolding outlier_aligned
  by (simp add: outlier_gt_def squared_error_def sq_dist_def power2_eq_square)

lemma is_similarity_outlier: "is_similarity outlier_alignment"
  by (simp add: outlier_alignment_def)

lemma outlier_best_alignment: "best_alignment outlier_alignment outlier_pred outlier_gt"
proof -
  have "is_similarity outlier_alignment"
    by (rule is_similarity_outlier)
  moreover have "squared_error (map (apply_similarity outlier_alignment) outlier_pred) outlier_gt
      \<le> squared_error (map (apply_similarity T') outlier_pred) outlier_gt" for T'
  proof -
    obtain s R t where "T' = (s, R, t)" by (metis prod_cases3)
    then show ?thesis
      unfolding outlier_squared_error by (simp only: outlier_lower_bound)
  qed
  ultimately show ?thesis
    by (simp add: best_alignment_def)
qed

lemma outlier_mpjpe: "mpjpe_spec outlier_pred outlier_gt = 1/10"
proof -
  have "length outlier_pred = length outlier_gt" "outlier_pred \<noteq> []"
    by (simp_all add: outlier_pred_def outlier_gt_def)
  then show ?thesis
    unfolding mpjpe_spec_list [OF \<open>length outlier_pred = length outlier_gt\<close> \<open>outlier_pred \<noteq> []\<close>]
    by (simp add: outlier_pred_def outlier_gt_def sq_dist_def)
qed

lemma outlier_aligned_mpjpe:
  "mpjpe_spec (map (apply_similarity outlier_alignment) outlier_pred) outlier_gt = 16/85"
proof -
  let ?Q = "map (apply_similarity outlier_alignment) outlier_pred"
  have l: "length ?Q = length outlier_gt" "?Q \<noteq> []"
    by (simp_all add: outlier_pred_def outlier_gt_def)
  show ?thesis
    unfolding mpjpe_spec_list [OF l]
    unfolding outlier_aligned
    by (simp add: outlier_gt_def sq_dist_def)
qed


text \<open>The best alignment of the example is unique on the joints.\<close>

lemma sq_dist_pair_eq:
  "sq_dist (apply_similarity (s, R, t) p) p
     + sq_dist (apply_similarity (s, R, t) (vneg p)) (vneg p)
   = 2 * sq_dist (vscale s (mat_vec R p)) p + 2 * dot t t"
proof -
  obtain r1 r2 r3 where R: "R = (r1, r2, r3)" by (cases R) auto
  obtain x y z where p: "p = (x, y, z)" by (cases p) auto
  obtain a b c where t: "t = (a, b, c)" by (cases t) auto
  have e: "(s * d + a' - x')\<^sup>2 + (- (s * d) + a' + x')\<^sup>2 = 2 * (s * d - x')\<^sup>2 + 2 * a'\<^sup>2"
    for d a' x' :: real
    using square_pair [of "s * d - x'" a'] by (simp add: algebra_simps)
  have "sq_dist (apply_similarity (s, R, t) p) p
       + sq_dist (apply_similarity (s, R, t) (vneg p)) (vneg p)
      = (2 * (s * dot r1 p - x)\<^sup>2 + 2 * a\<^sup>2) + (2 * (s * dot r2 p - y)\<^sup>2 + 2 * b\<^sup>2)
        + (2 * (s * dot r3 p - z)\<^sup>2 + 2 * c\<^sup>2)"
    unfolding R t sq_dist_def apply_similarity.simps mat_vec.simps dot_vneg
    using e [of "dot r1 p" a x] e [of "dot r2 p" b y] e [of "dot r3 p" c z]
    by (simp add: p)
  moreover have "dot t t = a\<^sup>2 + b\<^sup>2 + c\<^sup>2"
    by (simp add: t power2_eq_square)
  moreover have "sq_dist (vscale s (mat_vec R p)) p
      = (s * dot r1 p - x)\<^sup>2 + (s * dot r2 p - y)\<^sup>2 + (s * dot r3 p - z)\<^sup>2"
    by (simp add: R sq_dist_def) (simp add: p)
  ultimately show ?thesis by simp
qed

lemma symmetric_squared_error:
  "squared_error (map (apply_similarity (s, R, t)) (symmetric ps)) (symmetric ps)
     = 2 * sum_list (map (\<lambda>p. sq_dist (vscale s (mat_vec R p)) p) ps)
       + 2 * real (length ps) * dot t t"
proof (induction ps)
  case Nil
  show ?case by (simp add: symmetric_def squared_error_def)
next
  case (Cons p ps)
  have "squared_error (map (apply_similarity (s, R, t)) (symmetric (p # ps))) (symmetric (p # ps))
      = sq_dist (apply_similarity (s, R, t) p) p
        + sq_dist (apply_similarity (s, R, t) (vneg p)) (vneg p)
        + squared_error (map (apply_similarity (s, R, t)) (symmetric ps)) (symmetric ps)"
    by (simp add: symmetric_def squared_error_def)
  then show ?case
    using sq_dist_pair_eq [of s R t p] Cons by (simp add: algebra_simps)
qed

lemma sq_dist_eq_0: "sq_dist p g = 0 \<longleftrightarrow> p = g"
proof -
  obtain a b c where p: "p = (a, b, c)" by (cases p) auto
  obtain x y z where g: "g = (x, y, z)" by (cases g) auto
  have "(a - x)\<^sup>2 + (b - y)\<^sup>2 + (c - z)\<^sup>2 = 0 \<longleftrightarrow> a = x \<and> b = y \<and> c = z"
    by (simp add: sum_power2_eq_zero_iff add_nonneg_eq_0_iff)
  then show ?thesis by (simp add: p g sq_dist_def)
qed

lemma sum_list_nonneg_le_0:
  assumes "\<forall>x \<in> set xs. 0 \<le> f x" and "sum_list (map f xs) \<le> (0::real)" and "x \<in> set xs"
  shows "f x = 0"
  using assms
proof (induction xs)
  case Nil
  then show ?case by simp
next
  case (Cons a xs)
  have s: "0 \<le> sum_list (map f xs)"
    using Cons.prems(1) by (intro sum_list_nonneg) auto
  have a: "0 \<le> f a" using Cons.prems(1) by simp
  have "f a = 0" "sum_list (map f xs) \<le> 0"
    using Cons.prems(2) s a by simp_all
  then show ?case using Cons by auto
qed

lemma vscale_mat_vec_vneg: "vscale s (mat_vec R (vneg p)) = vneg (vscale s (mat_vec R p))"
  by (cases R; cases p) (simp add: dot_vneg del: dot.simps vneg.simps, simp)

lemma outlier_alignment_unique:
  assumes "best_alignment T outlier_pred outlier_gt"
  shows "map (apply_similarity T) outlier_pred
           = map (apply_similarity outlier_alignment) outlier_pred"
proof -
  obtain s R t where T: "T = (s, R, t)" by (metis prod_cases3)
  obtain a b c where t: "t = (a, b, c)" by (cases t) auto
  let ?u = "\<lambda>p. sq_dist (vscale s (mat_vec R p)) p"
  have le: "squared_error (map (apply_similarity (s, R, t)) outlier_pred) outlier_gt \<le> 68/25"
    using assms is_similarity_outlier outlier_squared_error
    unfolding best_alignment_def T by metis
  have split: "squared_error (map (apply_similarity (s, R, t)) outlier_pred) outlier_gt
      = squared_error (map (apply_similarity (s, R, t)) (symmetric outlier_base))
          (symmetric outlier_base)
        + sq_dist t (17/10, 0, 0)"
    unfolding outlier_structure
    by (simp add: squared_error_append apply_similarity_origin)
       (simp add: squared_error_def)
  have tt: "2 * real (length outlier_base) * dot t t + sq_dist t (17/10, 0, 0)
      = 68/25 + 17 * (a - 1/10)\<^sup>2 + 17 * b\<^sup>2 + 17 * c\<^sup>2"
    by (simp add: t outlier_base_def sq_dist_def power2_eq_square algebra_simps)
  have nn: "0 \<le> sum_list (map ?u outlier_base)"
    by (intro sum_list_nonneg) (auto simp: sq_dist_nonneg)
  have total: "2 * sum_list (map ?u outlier_base)
      + (17 * (a - 1/10)\<^sup>2 + 17 * b\<^sup>2 + 17 * c\<^sup>2) \<le> 0"
    using le split symmetric_squared_error [of s R t outlier_base] tt by linarith
  have sq: "0 \<le> 17 * (a - 1/10)\<^sup>2 + 17 * b\<^sup>2 + 17 * c\<^sup>2" by simp
  have u0: "sum_list (map ?u outlier_base) \<le> 0" using total sq by linarith
  have t0: "17 * (a - 1/10)\<^sup>2 + 17 * b\<^sup>2 + 17 * c\<^sup>2 = 0" using total sq nn by linarith
  have "(a - 1/10)\<^sup>2 + b\<^sup>2 + c\<^sup>2 = 0" using t0 by simp
  then have "a - 1/10 = 0 \<and> b = 0 \<and> c = 0"
    by (simp add: sum_power2_eq_zero_iff add_nonneg_eq_0_iff)
  then have abc: "t = (1/10, 0, 0)"
    unfolding t by simp
  have fixpt: "vscale s (mat_vec R p) = p" if "p \<in> set outlier_base" for p
  proof -
    have "?u p = 0"
      by (rule sum_list_nonneg_le_0 [OF _ u0 that]) (simp add: sq_dist_nonneg)
    then show ?thesis by (simp add: sq_dist_eq_0)
  qed
  have ap: "apply_similarity (s, R, t) p = vadd p (1/10, 0, 0)
      \<and> apply_similarity (s, R, t) (vneg p) = vadd (vneg p) (1/10, 0, 0)"
    if "p \<in> set outlier_base" for p
    unfolding abc apply_similarity.simps vscale_mat_vec_vneg fixpt [OF that] by simp
  have sym: "map (apply_similarity (s, R, t)) (symmetric ps)
      = map (\<lambda>p. vadd p (1/10, 0, 0)) (symmetric ps)" if "set ps \<subseteq> set outlier_base" for ps
    using that by (induction ps) (simp_all add: symmetric_def ap)
  have o: "apply_similarity (s, R, t) (0, 0, 0) = vadd (0, 0, 0) (1/10, 0, 0)"
    unfolding apply_similarity_origin abc by simp
  have "map (apply_similarity (s, R, t)) outlier_pred = map (\<lambda>p. vadd p (1/10, 0, 0)) outlier_pred"
    unfolding outlier_structure using sym [of outlier_base] o by simp
  moreover have "map (apply_similarity outlier_alignment) outlier_pred
      = map (\<lambda>p. vadd p (1/10, 0, 0)) outlier_pred"
    unfolding outlier_aligned by (simp add: outlier_pred_def)
  ultimately show ?thesis by (simp add: T)
qed

lemma outlier_reconstruction_error_unique:
  "is_reconstruction_error outlier_pred outlier_gt e \<longleftrightarrow> e = 16/85"
  unfolding is_reconstruction_error_def
  using outlier_alignment_unique outlier_best_alignment outlier_aligned_mpjpe by metis

text \<open>
  Claim C6, as amended.  For a predicted and a ground-truth joint set of the same size,
  the best-fit similarity alignment does not increase the sum of the squared joint
  distances, and the reconstruction error is at most the root mean square of the joint
  distances of the unaligned prediction.
\<close>

theorem reconstruction_error_le_rms:
  assumes "is_reconstruction_error P G e" and "length P = length G" and "P \<noteq> []"
  shows "e \<le> sqrt (squared_error P G / real (length P))
         \<and> (\<forall>T. best_alignment T P G \<longrightarrow>
               squared_error (map (apply_similarity T) P) G \<le> squared_error P G)"
proof -
  obtain T where T: "best_alignment T P G"
    and e: "e = mpjpe_spec (map (apply_similarity T) P) G"
    using assms(1) unfolding is_reconstruction_error_def by blast
  let ?Q = "map (apply_similarity T) P"
  have l: "length ?Q = length G" "?Q \<noteq> []" using assms(2,3) by simp_all
  have "e \<le> sqrt (squared_error ?Q G / real (length ?Q))"
    unfolding e by (rule mpjpe_le_rms [OF l])
  also have "\<dots> \<le> sqrt (squared_error P G / real (length P))"
    using best_alignment_le_identity [OF T] by (simp add: divide_right_mono)
  finally show ?thesis
    using best_alignment_le_identity by blast
qed

theorem reconstruction_error_le_rms_witness:
  "is_reconstruction_error outlier_pred outlier_gt (16/85)
   \<and> 16/85 \<le> sqrt (squared_error outlier_pred outlier_gt / real (length outlier_pred))
   \<and> squared_error (map (apply_similarity outlier_alignment) outlier_pred) outlier_gt
        \<le> squared_error outlier_pred outlier_gt"
proof -
  have r: "is_reconstruction_error outlier_pred outlier_gt (16/85)"
    by (simp add: outlier_reconstruction_error_unique)
  have l: "length outlier_pred = length outlier_gt" "outlier_pred \<noteq> []"
    by (simp_all add: outlier_pred_def outlier_gt_def)
  show ?thesis
    using reconstruction_error_le_rms [OF r l] r outlier_best_alignment by blast
qed

text \<open>
  The claim as stated fails: in the example the MPJPE is 100 millimeters, and the
  reconstruction error is about 188 millimeters.  The least-squares alignment spreads the
  error of the one displaced joint over all joints, which lowers the sum of the squared
  distances and raises their mean.
\<close>

theorem reconstruction_error_exceeds_mpjpe:
  "is_reconstruction_error outlier_pred outlier_gt (16/85)
   \<and> mpjpe_spec outlier_pred outlier_gt = 1/10
   \<and> (1/10 :: real) < 16/85"
  by (simp add: outlier_reconstruction_error_unique outlier_mpjpe)


end
